theory Spec2Isabelle
  imports Main "HOL-Library.AList"
begin

section \<open>CAMPS: conversion of an audio tree to MP3\<close>

text \<open>
  The development embeds \<^verbatim>\<open>camps_mt.py\<close> (the multi-process pipeline) and
  \<^verbatim>\<open>camps_legacy.py\<close> (its sequential predecessor). Both scripts are almost
  entirely calls into the operating system and into libraries (\<^verbatim>\<open>os\<close>,
  \<^verbatim>\<open>shutil\<close>, \<^verbatim>\<open>tempfile\<close>, \<^verbatim>\<open>pydub\<close>, \<^verbatim>\<open>mutagen\<close>,
  \<^verbatim>\<open>requests\<close>). The embedding keeps the control flow of the Python text,
  including every \<^verbatim>\<open>try\<close>/\<^verbatim>\<open>except\<close>, and treats each such call as an
  event: the call is appended to a trace, and an environment decides, from the
  trace so far, whether the call raises and what it returns. A property proved
  for every environment therefore holds whatever the file system, the tag
  library, the encoder and the webhook do.
\<close>

subsection \<open>Path and string functions of the Python library\<close>

type_synonym path = string

text \<open>\<^verbatim>\<open>str.rfind\<close> for a one-character needle: the last index, or \<open>-1\<close>.\<close>

definition rfind :: "char \<Rightarrow> string \<Rightarrow> int" where
  "rfind c s =
     (if c \<in> set s
      then int (length s) - 1 - int (length (takeWhile (\<lambda>x. x \<noteq> c) (rev s)))
      else - 1)"

text \<open>
  \<^verbatim>\<open>os.path.splitext\<close> (POSIX flavour; the scripts call \<^verbatim>\<open>os.chown\<close>, which
  exists on POSIX only). The extension starts at the last dot after the last
  slash, unless only dots lie between that slash and the dot.
\<close>

definition splitext :: "path \<Rightarrow> path \<times> string" where
  "splitext p =
     (let sepIndex = rfind CHR ''/'' p;
          dotIndex = rfind CHR ''.'' p
      in if dotIndex > sepIndex \<and>
            list_ex (\<lambda>c. c \<noteq> CHR ''.'')
              (take (nat (dotIndex - (sepIndex + 1))) (drop (nat (sepIndex + 1)) p))
         then (take (nat dotIndex) p, drop (nat dotIndex) p)
         else (p, []))"

text \<open>\<^verbatim>\<open>os.path.basename\<close>: what follows the last slash.\<close>

definition basename :: "path \<Rightarrow> string" where
  "basename p = drop (nat (rfind CHR ''/'' p + 1)) p"

text \<open>\<^verbatim>\<open>os.path.join\<close> of two components.\<close>

definition join :: "path \<Rightarrow> string \<Rightarrow> path" where
  "join a b =
     (if b \<noteq> [] \<and> hd b = CHR ''/'' then b
      else if a = [] \<or> last a = CHR ''/'' then a @ b
      else a @ ''/'' @ b)"

text \<open>
  \<^verbatim>\<open>str.lower\<close> on the ASCII letters. A \<open>string\<close> is a list of bytes; bytes
  outside \<open>A\<close>..\<open>Z\<close> are kept, so a non-ASCII extension never becomes one of the
  supported (pure ASCII) extensions.
\<close>

definition lower_char :: "char \<Rightarrow> char" where
  "lower_char c =
     (if (65::nat) \<le> of_char c \<and> of_char c \<le> (90::nat)
      then char_of (of_char c + (32::nat)) else c)"

definition lower :: "string \<Rightarrow> string" where
  "lower s = map lower_char s"

text \<open>
  \<open>partition_sep s\<close> is \<open>Some (a, b)\<close> when \<^verbatim>\<open>" - " in s\<close>, with
  \<^verbatim>\<open>a, b = s.split(" - ", 1)\<close> (split at the first occurrence), and \<open>None\<close>
  when the separator does not occur.
\<close>

fun partition_sep :: "string \<Rightarrow> (string \<times> string) option" where
  "partition_sep [] = None"
| "partition_sep (c # cs) =
     (if take 3 (c # cs) = '' - '' then Some ([], drop 3 (c # cs))
      else (case partition_sep cs of
              None \<Rightarrow> None
            | Some (a, b) \<Rightarrow> Some (c # a, b)))"

definition SUPPORTED_EXTENSIONS :: "string list" where
  "SUPPORTED_EXTENSIONS =
     [''.wav'', ''.flac'', ''.ogg'', ''.aac'', ''.m4a'', ''.wma'', ''.alac'',
      ''.aiff'', ''.mp3'']"

subsection \<open>Exceptions, calls, traces\<close>

text \<open>
  \<open>Raised n\<close> is an exception raised inside a library or system call (\<open>n\<close>
  its class name); the others are raised by the Python text itself: attribute
  access or item assignment on \<^verbatim>\<open>None\<close>, indexing an empty list, reading a
  local variable that was never assigned. All are subclasses of
  \<^verbatim>\<open>Exception\<close>, which is what every handler of the scripts catches.
\<close>

datatype exn =
    Raised string
  | AttributeError
  | TypeError
  | IndexError
  | UnboundLocalError

text \<open>A tag set: field name to list of values, keys unique.\<close>

type_synonym tags = "(string \<times> string list) list"

text \<open>
  What \<^verbatim>\<open>mutagen.File\<close> returns when it recognises the file: the stream's
  \<^verbatim>\<open>info.bitrate\<close> (bits per second) and the tags.
\<close>

record mobj =
  info_bitrate :: int
  mtags :: tags

text \<open>The result of \<^verbatim>\<open>os.stat\<close>, as far as the scripts read it.\<close>

record stat =
  st_mode :: nat
  st_uid :: nat
  st_gid :: nat

text \<open>
  The texts printed and posted. Sizes are kept in bytes and the elapsed time is
  left out (the scripts format both as decimal fractions).
\<close>

datatype msg =
    Error_checking_bitrate path exn
  | Lower_bitrate string int
  | Warning_skipping_metadata path exn
  | Estimated_metadata path string string
  | Could_not_estimate_metadata path
  | Converted_and_renamed path
  | Error_converting path exn
  | Slack_sent
  | Slack_failed int
  | Slack_error exn
  | Audio_conversion_completed nat int
  | Files_converted_modified nat int
  | Conversion_completed nat int
  | Conversion_and_renaming_completed int

datatype call =
    Os_walk path
  | From_file path
  | Os_stat path
  | Named_temporary_file
  | Export path int
  | Getsize path
  | Mutagen_File path bool
  | Update path tags
  | Setitem path string string
  | Save path tags
  | Move path path
  | Chmod path nat
  | Chown path nat nat
  | Remove path
  | Requests_post msg
  | Print msg

text \<open>An event is a call together with the exception it raised, if any.\<close>

datatype event = Ev call "exn option"

type_synonym trace = "event list"

text \<open>
  The environment: the configured bitrate, and for every call the exception it
  raises (if any) and the value it returns, both as functions of the trace of
  all events so far.
\<close>

record env =
  desired_bitrate :: int
  raises :: "trace \<Rightarrow> call \<Rightarrow> exn option"
  walk_result :: "trace \<Rightarrow> path \<Rightarrow> (path \<times> string list) list"
  stat_result :: "trace \<Rightarrow> path \<Rightarrow> stat"
  temp_name :: "trace \<Rightarrow> path"
  size_result :: "trace \<Rightarrow> path \<Rightarrow> nat"
  file_result :: "trace \<Rightarrow> path \<Rightarrow> bool \<Rightarrow> mobj option"
  status_code :: "trace \<Rightarrow> msg \<Rightarrow> int"

subsection \<open>Computations\<close>

text \<open>
  A computation reads the trace so far and yields the events it adds together
  with an exception (\<open>Inl\<close>) or a value (\<open>Inr\<close>).
\<close>

type_synonym 'a io = "trace \<Rightarrow> trace \<times> (exn + 'a)"

definition return_io :: "'a \<Rightarrow> 'a io" where
  "return_io a h = ([], Inr a)"

definition raise_io :: "exn \<Rightarrow> 'a io" where
  "raise_io e h = ([], Inl e)"

definition bind_io :: "'a io \<Rightarrow> ('a \<Rightarrow> 'b io) \<Rightarrow> 'b io" where
  "bind_io m f h =
     (case m h of
        (es, Inl e) \<Rightarrow> (es, Inl e)
      | (es, Inr a) \<Rightarrow> (case f a (h @ es) of (es', r) \<Rightarrow> (es @ es', r)))"

text \<open>\<^verbatim>\<open>try: m  except Exception as e: handler(e)\<close>\<close>

definition catch_io :: "'a io \<Rightarrow> (exn \<Rightarrow> 'a io) \<Rightarrow> 'a io" where
  "catch_io m handler h =
     (case m h of
        (es, Inl e) \<Rightarrow> (case handler e (h @ es) of (es', r) \<Rightarrow> (es @ es', r))
      | (es, Inr a) \<Rightarrow> (es, Inr a))"

text \<open>A call: logged with its outcome; it raises when the environment says so.\<close>

definition call_io :: "env \<Rightarrow> call \<Rightarrow> unit io" where
  "call_io env c h =
     ([Ev c (raises env h c)],
      case raises env h c of Some e \<Rightarrow> Inl e | None \<Rightarrow> Inr ())"

text \<open>A call that returns a value, read from the environment after the call.\<close>

definition read_io :: "env \<Rightarrow> call \<Rightarrow> (trace \<Rightarrow> 'a) \<Rightarrow> 'a io" where
  "read_io env c result =
     bind_io (call_io env c) (\<lambda>_ h. ([], Inr (result h)))"

text \<open>\<^verbatim>\<open>print\<close> does not raise.\<close>

definition print_io :: "msg \<Rightarrow> unit io" where
  "print_io m h = ([Ev (Print m) None], Inr ())"

subsection \<open>\<^verbatim>\<open>send_slack_message\<close> (camps\_mt.py, lines 201--215)\<close>

definition send_slack_message :: "env \<Rightarrow> msg \<Rightarrow> unit io" where
  "send_slack_message env message =
     catch_io
       (bind_io (read_io env (Requests_post message) (\<lambda>h. status_code env h message))
          (\<lambda>response_status_code.
             if response_status_code = 200 then print_io Slack_sent
             else print_io (Slack_failed response_status_code)))
       (\<lambda>e. print_io (Slack_error e))"

text \<open>\<^verbatim>\<open>send_slack_notification\<close> (camps\_mt.py, lines 191--198)\<close>

definition send_slack_notification :: "env \<Rightarrow> nat \<Rightarrow> int \<Rightarrow> unit io" where
  "send_slack_notification env converted_count total_space_saved =
     send_slack_message env (Audio_conversion_completed converted_count total_space_saved)"

subsection \<open>\<^verbatim>\<open>get_mp3_bitrate\<close> (camps\_mt.py, lines 38--47)\<close>

text \<open>
  \<^verbatim>\<open>int(b / 1000)\<close>: the quotient rounded towards zero (exact as long as the
  quotient is representable as a float, which holds for every bitrate below
  \<open>2^53\<close>).
\<close>

definition int_div_1000 :: "int \<Rightarrow> int" where
  "int_div_1000 b = (if 0 \<le> b then b div 1000 else - ((- b) div 1000))"

text \<open>
  \<^verbatim>\<open>mutagen.File\<close> may raise, or return \<^verbatim>\<open>None\<close>, on which \<^verbatim>\<open>audio.info\<close>
  raises \<^verbatim>\<open>AttributeError\<close>; the handler turns both into \<^verbatim>\<open>None\<close>.
\<close>

definition get_mp3_bitrate :: "env \<Rightarrow> path \<Rightarrow> int option io" where
  "get_mp3_bitrate env file_path =
     catch_io
       (bind_io (read_io env (Mutagen_File file_path False)
                   (\<lambda>h. file_result env h file_path False))
          (\<lambda>audio. case audio of
                      None \<Rightarrow> raise_io AttributeError
                    | Some a \<Rightarrow> return_io (Some (int_div_1000 (info_bitrate a)))))
       (\<lambda>e. bind_io (print_io (Error_checking_bitrate file_path e))
               (\<lambda>_. return_io None))"

subsection \<open>\<^verbatim>\<open>convert_to_mp3\<close> (camps\_mt.py, lines 50--109)\<close>

text \<open>The local variables assigned in lines 52--63.\<close>

record prep =
  original_stat :: stat
  temp_output_path :: path
  new_path :: path
  original_permissions :: nat
  original_size :: nat
  new_size :: nat

definition prepare :: "env \<Rightarrow> path \<Rightarrow> prep io" where
  "prepare env input_path =
     bind_io (call_io env (From_file input_path)) (\<lambda>_.
     bind_io (read_io env (Os_stat input_path) (\<lambda>h. stat_result env h input_path))
       (\<lambda>original_stat'.
     bind_io (read_io env Named_temporary_file (temp_name env)) (\<lambda>temp_output_path'.
     bind_io (call_io env (Export temp_output_path' (desired_bitrate env))) (\<lambda>_.
     bind_io (read_io env (Os_stat input_path)
                (\<lambda>h. st_mode (stat_result env h input_path)))
       (\<lambda>original_permissions'.
     bind_io (read_io env (Getsize input_path) (\<lambda>h. size_result env h input_path))
       (\<lambda>original_size'.
     bind_io (read_io env (Getsize temp_output_path')
                (\<lambda>h. size_result env h temp_output_path'))
       (\<lambda>new_size'.
     return_io
       \<lparr>original_stat = original_stat',
        temp_output_path = temp_output_path',
        new_path = fst (splitext input_path) @ ''.mp3'',
        original_permissions = original_permissions',
        original_size = original_size',
        new_size = new_size'\<rparr>)))))))"

text \<open>
  A local variable is unbound until its assignment has completed; the handler
  of lines 71--94 uses \<^verbatim>\<open>new_metadata\<close>, which the \<^verbatim>\<open>try\<close> block of lines
  65--70 may have left unbound.
\<close>

datatype 'a var = Unbound | Bound 'a

text \<open>Running a block and handing its exception over as a value.\<close>

definition attempt_io :: "'a io \<Rightarrow> (exn + 'a) io" where
  "attempt_io m =
     catch_io (bind_io m (\<lambda>a. return_io (Inr a))) (\<lambda>e. return_io (Inl e))"

text \<open>
  \<^verbatim>\<open>new.update(original)\<close>: every key of the original is stored in the new
  object, replacing a value already there.
\<close>

definition merge_tags :: "tags \<Rightarrow> tags \<Rightarrow> tags" where
  "merge_tags new original = fold (\<lambda>(k, v). AList.update k v) original new"

text \<open>
  Lines 65--70. The value is the binding of \<^verbatim>\<open>new_metadata\<close> when the block is
  left, and how it is left. A mutagen file object is a mapping, whose truth
  value is that it has at least one key. An \<^verbatim>\<open>update\<close> that raises is taken to
  have merged nothing.
\<close>

definition copy_tags :: "env \<Rightarrow> path \<Rightarrow> path \<Rightarrow> (mobj option var \<times> (exn + unit)) io" where
  "copy_tags env input_path temp_output_path' =
     bind_io (attempt_io (read_io env (Mutagen_File input_path False)
                            (\<lambda>h. file_result env h input_path False)))
       (\<lambda>r1. case r1 of
          Inl e \<Rightarrow> return_io (Unbound, Inl e)
        | Inr original_metadata \<Rightarrow>
     bind_io (attempt_io (read_io env (Mutagen_File temp_output_path' False)
                            (\<lambda>h. file_result env h temp_output_path' False)))
       (\<lambda>r2. case r2 of
          Inl e \<Rightarrow> return_io (Unbound, Inl e)
        | Inr new_metadata \<Rightarrow>
            (case (original_metadata, new_metadata) of
               (Some om, Some nm) \<Rightarrow>
                 if mtags om \<noteq> [] \<and> mtags nm \<noteq> [] then
                   bind_io (attempt_io (call_io env (Update temp_output_path' (mtags om))))
                     (\<lambda>r3. case r3 of
                        Inl e \<Rightarrow> return_io (Bound new_metadata, Inl e)
                      | Inr _ \<Rightarrow>
                          bind_io (attempt_io (call_io env
                                     (Save temp_output_path' (merge_tags (mtags nm) (mtags om)))))
                            (\<lambda>r4. return_io
                               (Bound (Some (nm\<lparr>mtags := merge_tags (mtags nm) (mtags om)\<rparr>)), r4)))
                 else return_io (Bound new_metadata, Inr ())
             | _ \<Rightarrow> return_io (Bound new_metadata, Inr ()))))"

text \<open>
  The handler, lines 71--94. Item assignment on an unbound variable raises
  \<^verbatim>\<open>UnboundLocalError\<close>, on \<^verbatim>\<open>None\<close> it raises \<^verbatim>\<open>TypeError\<close>; on a tag
  object it is a call into the library, which raises when the environment says
  so (mutagen's ID3 objects refuse a string). Both fields are assigned without
  looking at their present value.
\<close>

definition recover_tags :: "env \<Rightarrow> path \<Rightarrow> path \<Rightarrow> mobj option var \<Rightarrow> exn \<Rightarrow> unit io" where
  "recover_tags env input_path temp_output_path' new_metadata meta_error =
     bind_io (print_io (Warning_skipping_metadata input_path meta_error)) (\<lambda>_.
     case partition_sep (fst (splitext (basename input_path))) of
       Some (artist, title) \<Rightarrow>
         (case new_metadata of
            Unbound \<Rightarrow> raise_io UnboundLocalError
          | Bound None \<Rightarrow> raise_io TypeError
          | Bound (Some nm) \<Rightarrow>
              bind_io (call_io env (Setitem temp_output_path' ''artist'' artist)) (\<lambda>_.
              bind_io (call_io env (Setitem temp_output_path' ''title'' title)) (\<lambda>_.
              bind_io (call_io env (Save temp_output_path'
                         (AList.update ''title'' [title]
                            (AList.update ''artist'' [artist] (mtags nm))))) (\<lambda>_.
              bind_io (print_io (Estimated_metadata input_path artist title)) (\<lambda>_.
              send_slack_message env (Estimated_metadata input_path artist title))))))
     | None \<Rightarrow>
         bind_io (print_io (Could_not_estimate_metadata input_path)) (\<lambda>_.
         send_slack_message env (Could_not_estimate_metadata input_path)))"

text \<open>Lines 65--94: the \<^verbatim>\<open>try\<close> block and its handler.\<close>

definition metadata_copying :: "env \<Rightarrow> path \<Rightarrow> path \<Rightarrow> unit io" where
  "metadata_copying env input_path temp_output_path' =
     bind_io (copy_tags env input_path temp_output_path')
       (\<lambda>(new_metadata, r). case r of
          Inl meta_error \<Rightarrow>
            recover_tags env input_path temp_output_path' new_metadata meta_error
        | Inr _ \<Rightarrow> return_io ())"

text \<open>Lines 96--101: the artifact replaces the source.\<close>

definition commit :: "env \<Rightarrow> path \<Rightarrow> prep \<Rightarrow> unit io" where
  "commit env input_path pr =
     bind_io (call_io env (Move (temp_output_path pr) (new_path pr))) (\<lambda>_.
     bind_io (call_io env (Chmod (new_path pr) (original_permissions pr))) (\<lambda>_.
     bind_io (call_io env (Chown (new_path pr) (st_uid (original_stat pr))
                             (st_gid (original_stat pr)))) (\<lambda>_.
     if input_path \<noteq> new_path pr then call_io env (Remove input_path)
     else return_io ())))"

definition convert_to_mp3 :: "env \<Rightarrow> path \<Rightarrow> int io" where
  "convert_to_mp3 env input_path =
     catch_io
       (bind_io (prepare env input_path) (\<lambda>pr.
        bind_io (metadata_copying env input_path (temp_output_path pr)) (\<lambda>_.
        bind_io (commit env input_path pr) (\<lambda>_.
        bind_io (print_io (Converted_and_renamed (new_path pr))) (\<lambda>_.
        return_io (int (original_size pr) - int (new_size pr)))))))
       (\<lambda>e. bind_io (print_io (Error_converting input_path e)) (\<lambda>_.
             bind_io (send_slack_message env (Error_converting input_path e)) (\<lambda>_.
             return_io 0)))"

subsection \<open>\<^verbatim>\<open>process_file\<close> (camps\_mt.py, lines 112--156)\<close>

text \<open>\<^verbatim>\<open>audio_file.get(key, [""])[0]\<close>\<close>

definition get_first :: "tags \<Rightarrow> string \<Rightarrow> string io" where
  "get_first t key =
     (case map_of t key of
        None \<Rightarrow> return_io []
      | Some [] \<Rightarrow> raise_io IndexError
      | Some (v # _) \<Rightarrow> return_io v)"

text \<open>
  Lines 123--149, outside any \<^verbatim>\<open>try\<close>: the tags are read once more, and an
  empty artist or title is estimated from the file name and saved.
\<close>

definition estimate_mp3_tags :: "env \<Rightarrow> path \<Rightarrow> unit io" where
  "estimate_mp3_tags env file_path =
     bind_io (read_io env (Mutagen_File file_path True)
                (\<lambda>h. file_result env h file_path True))
       (\<lambda>audio_file. case audio_file of
          None \<Rightarrow> raise_io AttributeError
        | Some af \<Rightarrow>
     bind_io (get_first (mtags af) ''artist'') (\<lambda>artist.
     bind_io (get_first (mtags af) ''title'') (\<lambda>title.
     if artist = [] \<or> title = [] then
       (case partition_sep (fst (splitext (basename file_path))) of
          Some (estimated_artist, estimated_title) \<Rightarrow>
            bind_io (if artist = []
                     then call_io env (Setitem file_path ''artist'' estimated_artist)
                     else return_io ()) (\<lambda>_.
            bind_io (if title = []
                     then call_io env (Setitem file_path ''title'' estimated_title)
                     else return_io ()) (\<lambda>_.
            bind_io (call_io env (Save file_path
                       ((if title = [] then AList.update ''title'' [estimated_title] else id)
                          ((if artist = [] then AList.update ''artist'' [estimated_artist]
                            else id) (mtags af))))) (\<lambda>_.
            bind_io (print_io (Estimated_metadata file_path estimated_artist estimated_title))
              (\<lambda>_.
            send_slack_message env
              (Estimated_metadata file_path estimated_artist estimated_title)))))
        | None \<Rightarrow>
            bind_io (print_io (Could_not_estimate_metadata file_path)) (\<lambda>_.
            send_slack_message env (Could_not_estimate_metadata file_path)))
     else return_io ())))"

text \<open>
  Line 151: \<^verbatim>\<open>bitrate == desired_bitrate or (bitrate and bitrate < desired_bitrate)\<close>.
  \<^verbatim>\<open>None\<close> and \<open>0\<close> are the false values of \<^verbatim>\<open>bitrate\<close>.
\<close>

definition no_conversion_needed :: "int option \<Rightarrow> int \<Rightarrow> bool" where
  "no_conversion_needed bitrate desired =
     (bitrate = Some desired \<or>
      (case bitrate of None \<Rightarrow> False | Some b \<Rightarrow> b \<noteq> 0 \<and> b < desired))"

definition process_file :: "env \<Rightarrow> path \<Rightarrow> int io" where
  "process_file env file_path =
     (let ext = lower (snd (splitext file_path)) in
      if ext \<in> set SUPPORTED_EXTENSIONS then
        if ext = ''.mp3'' then
          bind_io (get_mp3_bitrate env file_path) (\<lambda>bitrate.
          bind_io (estimate_mp3_tags env file_path) (\<lambda>_.
          if no_conversion_needed bitrate (desired_bitrate env) then return_io 0
          else convert_to_mp3 env file_path))
        else convert_to_mp3 env file_path
      else return_io 0)"

subsection \<open>\<^verbatim>\<open>process_directory\<close> (camps\_mt.py, lines 159--188)\<close>

text \<open>Lines 167--170: every file of every directory of the walk, joined to its root.\<close>

definition files_of_walk :: "(path \<times> string list) list \<Rightarrow> path list" where
  "files_of_walk w = concat (map (\<lambda>(root, files). map (join root) files) w)"

text \<open>
  Lines 172--173. The pool runs the tasks in separate processes; an exception
  of a task is kept with its future and raised again when the result is
  fetched. The model runs the tasks one after the other in the order of the
  list, each to its end, and \<open>collect\<close> is \<^verbatim>\<open>list(...)\<close> over the results:
  the first exception in the order of the list is raised.
\<close>

fun run_tasks :: "env \<Rightarrow> path list \<Rightarrow> (exn + int) list io" where
  "run_tasks env [] = return_io []"
| "run_tasks env (f # fs) =
     bind_io (attempt_io (process_file env f)) (\<lambda>r.
     bind_io (run_tasks env fs) (\<lambda>rs. return_io (r # rs)))"

fun collect :: "(exn + int) list \<Rightarrow> int list io" where
  "collect [] = return_io []"
| "collect (Inl e # rs) = raise_io e"
| "collect (Inr v # rs) = bind_io (collect rs) (\<lambda>vs. return_io (v # vs))"

text \<open>Lines 175--178: the body of the loop over the results.\<close>

definition tally :: "int \<Rightarrow> nat \<times> int \<Rightarrow> nat \<times> int" where
  "tally space_saved acc =
     (case acc of (converted_count, total_space_saved) \<Rightarrow>
        if space_saved > 0 then (converted_count + 1, total_space_saved + space_saved)
        else (converted_count, total_space_saved))"

definition summarise :: "int list \<Rightarrow> nat \<times> int" where
  "summarise results = fold tally results (0, 0)"

text \<open>Lines 175--188: the summary, its notification and the final line.\<close>

definition report :: "env \<Rightarrow> int list \<Rightarrow> unit io" where
  "report env results =
     (case summarise results of (converted_count, total_space_saved) \<Rightarrow>
        bind_io (if converted_count > 0
                 then send_slack_notification env converted_count total_space_saved
                 else return_io ()) (\<lambda>_.
        print_io (Conversion_completed converted_count total_space_saved)))"

definition process_directory :: "env \<Rightarrow> path \<Rightarrow> unit io" where
  "process_directory env input_dir =
     bind_io (read_io env (Os_walk input_dir) (\<lambda>h. walk_result env h input_dir)) (\<lambda>w.
     bind_io (run_tasks env (files_of_walk w)) (\<lambda>outcomes.
     bind_io (collect outcomes) (\<lambda>results.
     report env results)))"

section \<open>The sequential script, camps\_legacy.py\<close>

text \<open>
  \<^verbatim>\<open>get_mp3_bitrate\<close> (lines 37--46) and lines 55--75 of \<^verbatim>\<open>convert_to_mp3\<close> are
  the text of camps\_mt.py, so \<open>get_mp3_bitrate\<close> and \<open>prepare\<close> stand for them;
  likewise lines 84--92 are \<open>commit\<close>.
\<close>

subsection \<open>\<^verbatim>\<open>send_slack_notification\<close> (camps\_legacy.py, lines 157--174)\<close>

definition post_legacy :: "env \<Rightarrow> msg \<Rightarrow> unit io" where
  "post_legacy env message =
     catch_io
       (bind_io (read_io env (Requests_post message) (\<lambda>h. status_code env h message))
          (\<lambda>response_status_code.
             if response_status_code = 200 then print_io Slack_sent
             else print_io (Slack_failed response_status_code)))
       (\<lambda>e. print_io (Slack_error e))"

definition send_slack_notification_legacy :: "env \<Rightarrow> nat \<Rightarrow> int \<Rightarrow> unit io" where
  "send_slack_notification_legacy env converted_count total_space_saved =
     post_legacy env (Files_converted_modified converted_count total_space_saved)"

subsection \<open>\<^verbatim>\<open>convert_to_mp3\<close> (camps\_legacy.py, lines 49--111)\<close>

text \<open>
  Lines 77--81, with no handler of their own. \<^verbatim>\<open>update\<close> on \<^verbatim>\<open>None\<close> raises
  \<^verbatim>\<open>AttributeError\<close>; \<^verbatim>\<open>update(None)\<close> merges nothing.
\<close>

definition preserve_metadata_legacy :: "env \<Rightarrow> path \<Rightarrow> path \<Rightarrow> unit io" where
  "preserve_metadata_legacy env input_path temp_output_path' =
     bind_io (read_io env (Mutagen_File input_path False)
                (\<lambda>h. file_result env h input_path False)) (\<lambda>original_metadata.
     bind_io (read_io env (Mutagen_File temp_output_path' False)
                (\<lambda>h. file_result env h temp_output_path' False)) (\<lambda>new_metadata.
     case new_metadata of
       None \<Rightarrow> raise_io AttributeError
     | Some nm \<Rightarrow>
         (let original_tags = (case original_metadata of None \<Rightarrow> [] | Some om \<Rightarrow> mtags om)
          in bind_io (call_io env (Update temp_output_path' original_tags)) (\<lambda>_.
             call_io env (Save temp_output_path' (merge_tags (mtags nm) original_tags))))))"

text \<open>The handler, lines 96--111, posts to the webhook with the text of lines 99--109.\<close>

definition convert_to_mp3_legacy :: "env \<Rightarrow> path \<Rightarrow> int io" where
  "convert_to_mp3_legacy env input_path =
     catch_io
       (bind_io (prepare env input_path) (\<lambda>pr.
        bind_io (preserve_metadata_legacy env input_path (temp_output_path pr)) (\<lambda>_.
        bind_io (commit env input_path pr) (\<lambda>_.
        bind_io (print_io (Converted_and_renamed (new_path pr))) (\<lambda>_.
        return_io (int (original_size pr) - int (new_size pr)))))))
       (\<lambda>e. bind_io (print_io (Error_converting input_path e)) (\<lambda>_.
             bind_io (post_legacy env (Error_converting input_path e)) (\<lambda>_.
             return_io 0)))"

subsection \<open>\<^verbatim>\<open>process_directory\<close> (camps\_legacy.py, lines 114--154)\<close>

text \<open>
  The body of the inner loop, lines 124--143, for one file of one directory;
  the value is the updated pair of counters. \<^verbatim>\<open>continue\<close> leaves them as
  they are.
\<close>

definition visit_legacy :: "env \<Rightarrow> path \<Rightarrow> string \<Rightarrow> nat \<times> int \<Rightarrow> (nat \<times> int) io" where
  "visit_legacy env root file acc =
     (let ext = lower (snd (splitext file)) in
      if ext \<in> set SUPPORTED_EXTENSIONS then
        (let input_path = join root file in
         bind_io (if ext = ''.mp3''
                  then bind_io (get_mp3_bitrate env input_path) (\<lambda>bitrate.
                         if bitrate = Some (desired_bitrate env) then return_io True
                         else (case bitrate of
                                 None \<Rightarrow> return_io False
                               | Some b \<Rightarrow>
                                   if b \<noteq> 0 \<and> b < desired_bitrate env
                                   then bind_io (print_io (Lower_bitrate file b))
                                          (\<lambda>_. return_io True)
                                   else return_io False))
                  else return_io False)
           (\<lambda>continue.
              if continue then return_io acc
              else bind_io (convert_to_mp3_legacy env input_path) (\<lambda>space_saved.
                     return_io (tally space_saved acc))))
      else return_io acc)"

text \<open>
  The same lines 124--140 without the counters: the value the conversion of the
  file returns, or \<open>None\<close> when the loop passes the file by.
\<close>

definition legacy_task :: "env \<Rightarrow> path \<Rightarrow> string \<Rightarrow> int option io" where
  "legacy_task env root file =
     (let ext = lower (snd (splitext file)) in
      if ext \<in> set SUPPORTED_EXTENSIONS then
        (let input_path = join root file in
         bind_io (if ext = ''.mp3''
                  then bind_io (get_mp3_bitrate env input_path) (\<lambda>bitrate.
                         if bitrate = Some (desired_bitrate env) then return_io True
                         else (case bitrate of
                                 None \<Rightarrow> return_io False
                               | Some b \<Rightarrow>
                                   if b \<noteq> 0 \<and> b < desired_bitrate env
                                   then bind_io (print_io (Lower_bitrate file b))
                                          (\<lambda>_. return_io True)
                                   else return_io False))
                  else return_io False)
           (\<lambda>continue.
              if continue then return_io None
              else bind_io (convert_to_mp3_legacy env input_path) (\<lambda>space_saved.
                     return_io (Some space_saved))))
      else return_io None)"

fun loop_legacy :: "env \<Rightarrow> (path \<times> string) list \<Rightarrow> nat \<times> int \<Rightarrow> (nat \<times> int) io" where
  "loop_legacy env [] acc = return_io acc"
| "loop_legacy env ((root, file) # rest) acc =
     bind_io (visit_legacy env root file acc) (\<lambda>acc'. loop_legacy env rest acc')"

definition pairs_of_walk :: "(path \<times> string list) list \<Rightarrow> (path \<times> string) list" where
  "pairs_of_walk w = concat (map (\<lambda>(root, files). map (Pair root) files) w)"

text \<open>Lines 145--154.\<close>

definition report_legacy :: "env \<Rightarrow> nat \<times> int \<Rightarrow> unit io" where
  "report_legacy env acc =
     (case acc of (converted_count, total_space_saved) \<Rightarrow>
        bind_io (if converted_count \<noteq> 0
                 then send_slack_notification_legacy env converted_count total_space_saved
                 else return_io ()) (\<lambda>_.
        print_io (Conversion_and_renaming_completed total_space_saved)))"

definition process_directory_legacy :: "env \<Rightarrow> path \<Rightarrow> unit io" where
  "process_directory_legacy env input_dir =
     bind_io (read_io env (Os_walk input_dir) (\<lambda>h. walk_result env h input_dir)) (\<lambda>w.
     bind_io (loop_legacy env (pairs_of_walk w) (0, 0)) (\<lambda>acc.
     report_legacy env acc))"

section \<open>Observations on traces\<close>

text \<open>
  A task has converted its file when it has printed \<^verbatim>\<open>Converted and renamed\<close>
  (camps\_mt.py line 103, camps\_legacy.py line 94), which follows the commit.
\<close>

fun reports_conversion :: "event \<Rightarrow> bool" where
  "reports_conversion (Ev (Print (Converted_and_renamed q)) r) = True"
| "reports_conversion e = False"

text \<open>
  What the handler of \<^verbatim>\<open>convert_to_mp3\<close> adds to the trace (camps\_mt.py lines
  106--109, camps\_legacy.py lines 96--111): the error line and the post.
\<close>

definition failure_events :: "env \<Rightarrow> path \<Rightarrow> exn \<Rightarrow> trace \<Rightarrow> trace" where
  "failure_events env p e h =
     Ev (Print (Error_converting p e)) None #
     fst (send_slack_message env (Error_converting p e) (h @ [Ev (Print (Error_converting p e)) None]))"

definition failure_events_legacy :: "env \<Rightarrow> path \<Rightarrow> exn \<Rightarrow> trace \<Rightarrow> trace" where
  "failure_events_legacy env p e h =
     Ev (Print (Error_converting p e)) None #
     fst (post_legacy env (Error_converting p e) (h @ [Ev (Print (Error_converting p e)) None]))"

text \<open>
  The shape both versions of \<^verbatim>\<open>convert_to_mp3\<close> share: prepare, a metadata
  step \<open>M\<close>, commit, report; the first exception ends the run with the
  handler's events \<open>F\<close> and the result 0.
\<close>

definition staged :: "env \<Rightarrow> path \<Rightarrow> (prep \<Rightarrow> unit io) \<Rightarrow> (exn \<Rightarrow> trace \<Rightarrow> trace) \<Rightarrow> int io" where
  "staged env p M F h =
     (case prepare env p h of
        (e1, Inl x) \<Rightarrow> (e1 @ F x (h @ e1), Inr 0)
      | (e1, Inr pr) \<Rightarrow>
          (case M pr (h @ e1) of
             (e2, Inl x) \<Rightarrow> (e1 @ e2 @ F x (h @ e1 @ e2), Inr 0)
           | (e2, Inr u) \<Rightarrow>
               (case commit env p pr (h @ e1 @ e2) of
                  (e3, Inl x) \<Rightarrow> (e1 @ e2 @ e3 @ F x (h @ e1 @ e2 @ e3), Inr 0)
                | (e3, Inr v) \<Rightarrow>
                    (e1 @ e2 @ e3 @ [Ev (Print (Converted_and_renamed (new_path pr))) None],
                     Inr (int (original_size pr) - int (new_size pr))))))"

text \<open>
  The calls that change a file or a tag object.
\<close>

fun mutates :: "call \<Rightarrow> bool" where
  "mutates Named_temporary_file = True"
| "mutates (Export t b) = True"
| "mutates (Update t ts) = True"
| "mutates (Setitem t k v) = True"
| "mutates (Save t ts) = True"
| "mutates (Move a b) = True"
| "mutates (Chmod a m) = True"
| "mutates (Chown a u g) = True"
| "mutates (Remove a) = True"
| "mutates c = False"

definition harmless :: "event \<Rightarrow> bool" where
  "harmless e = (case e of Ev c r \<Rightarrow> \<not> mutates c)"

text \<open>
  The order of the commit, as a monitor over the trace of one conversion of
  \<open>src\<close> into \<open>dst\<close>. The artifact starts in scratch space; the only
  move allowed is the one to \<open>dst\<close>, and it must come first; permissions
  and ownership are set on \<open>dst\<close> only once the move has succeeded; the
  only removal allowed is that of \<open>src\<close>, after the move, and only when
  \<open>src\<close> and \<open>dst\<close> differ; once the source is removed nothing mutates
  any more. \<open>None\<close> is a violation.
\<close>

datatype phase = In_scratch | In_place | Source_removed

definition commit_step :: "path \<Rightarrow> path \<Rightarrow> phase \<Rightarrow> event \<Rightarrow> phase option" where
  "commit_step src dst ph e =
     (case e of Ev c r \<Rightarrow>
        (case c of
           Move a b \<Rightarrow>
             if ph = In_scratch \<and> b = dst
             then Some (if r = None then In_place else In_scratch) else None
         | Chmod a m \<Rightarrow> if ph = In_place \<and> a = dst then Some In_place else None
         | Chown a u g \<Rightarrow> if ph = In_place \<and> a = dst then Some In_place else None
         | Remove a \<Rightarrow>
             if ph = In_place \<and> a = src \<and> src \<noteq> dst
             then Some (if r = None then Source_removed else In_place) else None
         | _ \<Rightarrow> if ph = Source_removed \<and> mutates c then None else Some ph))"

fun in_commit_order :: "path \<Rightarrow> path \<Rightarrow> phase \<Rightarrow> trace \<Rightarrow> bool" where
  "in_commit_order src dst ph [] = True"
| "in_commit_order src dst ph (e # es) =
     (case commit_step src dst ph e of
        None \<Rightarrow> False
      | Some ph' \<Rightarrow> in_commit_order src dst ph' es)"

text \<open>
  The paths that hold the audio, original or encoded, step by step. A
  successful export writes it to the scratch file, a successful move carries
  it along (and replaces what was at the destination), a successful removal
  deletes it; a call that raises is taken to leave the files as they were.
  \<open>never_lost\<close> says that this set is non-empty before and after every
  event of the trace.
\<close>

fun apply_event :: "event \<Rightarrow> path set \<Rightarrow> path set" where
  "apply_event (Ev (Export t b) None) S = insert t S"
| "apply_event (Ev (Move a b) None) S = (if a \<in> S then insert b (S - {a}) else S - {b})"
| "apply_event (Ev (Remove a) None) S = S - {a}"
| "apply_event e S = S"

fun never_lost :: "path set \<Rightarrow> trace \<Rightarrow> bool" where
  "never_lost S [] = (S \<noteq> {})"
| "never_lost S (e # es) = (S \<noteq> {} \<and> never_lost (apply_event e S) es)"

text \<open>Events after which every path that held the audio still holds it.\<close>

definition keeps :: "event \<Rightarrow> bool" where
  "keeps e = (case e of Ev (Move a b) r \<Rightarrow> False | Ev (Remove a) r \<Rightarrow> False | _ \<Rightarrow> True)"

text \<open>Events that leave the set of paths holding the audio as it is.\<close>

definition inert :: "event \<Rightarrow> bool" where
  "inert e =
     (case e of Ev (Export t b) r \<Rightarrow> False | Ev (Move a b) r \<Rightarrow> False
      | Ev (Remove a) r \<Rightarrow> False | _ \<Rightarrow> True)"

text \<open>
  The events of the tag estimation of \<^verbatim>\<open>process_file\<close> on the file \<open>p\<close>:
  tag reads of \<open>p\<close>, assignments to its artist and title, a save of its
  tags, and reports. No decoding, no export, no move, no change of mode or
  owner, no removal.
\<close>

fun estimates_tags_of :: "path \<Rightarrow> event \<Rightarrow> bool" where
  "estimates_tags_of p (Ev (Mutagen_File q easy) r) = (q = p)"
| "estimates_tags_of p (Ev (Setitem q k v) r) = (q = p \<and> (k = ''artist'' \<or> k = ''title''))"
| "estimates_tags_of p (Ev (Save q ts) r) = (q = p)"
| "estimates_tags_of p (Ev (Print m) r) = True"
| "estimates_tags_of p (Ev (Requests_post m) r) = True"
| "estimates_tags_of p e = False"

text \<open>The tag set has a non-empty first value for the key.\<close>

definition has_tag :: "tags \<Rightarrow> string \<Rightarrow> bool" where
  "has_tag ts k = (case map_of ts k of Some (v # vs) \<Rightarrow> v \<noteq> [] | _ \<Rightarrow> False)"

text \<open>The final line of \<^verbatim>\<open>process_directory\<close> (camps\_mt.py line 186); a save of tags.\<close>

fun prints_summary :: "event \<Rightarrow> bool" where
  "prints_summary (Ev (Print (Conversion_completed c t)) r) = True"
| "prints_summary e = False"

fun saves :: "event \<Rightarrow> bool" where
  "saves (Ev (Save q ts) r) = True"
| "saves e = False"

text \<open>
  The tasks of a batch, file by file: \<open>task_history env fs h i\<close> is the trace when
  the task of the \<open>i\<close>-th file starts, given that the batch starts at \<open>h\<close>,
  and \<open>task_outcomes\<close> lists what \<open>process_file\<close> leaves for each file, an
  exception or a value, in the order of the files.
\<close>

fun task_history :: "env \<Rightarrow> path list \<Rightarrow> trace \<Rightarrow> nat \<Rightarrow> trace" where
  "task_history env fs h 0 = h"
| "task_history env fs h (Suc i) =
     task_history env fs h i @ fst (process_file env (fs ! i) (task_history env fs h i))"

definition task_outcomes :: "env \<Rightarrow> path list \<Rightarrow> trace \<Rightarrow> (exn + int) list" where
  "task_outcomes env fs h =
     map (\<lambda>i. snd (process_file env (fs ! i) (task_history env fs h i))) [0..<length fs]"

text \<open>
  Likewise for the sequential script: the values returned by the conversions of
  the files that the loop does not pass by, in the order of the files.
\<close>

fun legacy_history :: "env \<Rightarrow> (path \<times> string) list \<Rightarrow> trace \<Rightarrow> nat \<Rightarrow> trace" where
  "legacy_history env ps h 0 = h"
| "legacy_history env ps h (Suc i) =
     legacy_history env ps h i @
     fst (legacy_task env (fst (ps ! i)) (snd (ps ! i)) (legacy_history env ps h i))"

definition legacy_values :: "env \<Rightarrow> (path \<times> string) list \<Rightarrow> trace \<Rightarrow> int list" where
  "legacy_values env ps h =
     concat (map (\<lambda>i. case snd (legacy_task env (fst (ps ! i)) (snd (ps ! i))
                                   (legacy_history env ps h i)) of
                         Inr (Some s) \<Rightarrow> [s]
                       | _ \<Rightarrow> [])
               [0..<length ps])"

text \<open>A post of the message to the webhook, whatever its outcome.\<close>

fun posts :: "msg \<Rightarrow> event \<Rightarrow> bool" where
  "posts m (Ev (Requests_post m') r) = (m' = m)"
| "posts m e = False"

text \<open>
  Where \<^verbatim>\<open>convert_to_mp3\<close> reads the two sizes when nothing has raised before:
  the path of the artifact is the name the temporary file got, and
  \<open>before_sizes\<close> is the trace up to the two \<^verbatim>\<open>os.path.getsize\<close> calls of lines
  62--63 (decoding, stat, temporary file, export, stat).
\<close>

definition artifact_path :: "env \<Rightarrow> path \<Rightarrow> trace \<Rightarrow> path" where
  "artifact_path env p h =
     temp_name env (h @ [Ev (From_file p) None, Ev (Os_stat p) None, Ev Named_temporary_file None])"

definition before_sizes :: "env \<Rightarrow> path \<Rightarrow> trace \<Rightarrow> trace" where
  "before_sizes env p h =
     h @ [Ev (From_file p) None, Ev (Os_stat p) None, Ev Named_temporary_file None,
          Ev (Export (artifact_path env p h) (desired_bitrate env)) None,
          Ev (Os_stat p) None]"

section \<open>Concrete environments\<close>

text \<open>
  A world in which no call raises: the walk finds one file \<^verbatim>\<open>music/a.wav\<close> of
  100 bytes, the encoder writes 40 bytes to \<^verbatim>\<open>/tmp/t.mp3\<close>, mutagen recognises
  no file, and the webhook answers 200.
\<close>

definition quiet_env :: env where
  "quiet_env =
     \<lparr>desired_bitrate = 256,
      raises = (\<lambda>h c. None),
      walk_result = (\<lambda>h p. [(''music'', [''a.wav''])]),
      stat_result = (\<lambda>h p. \<lparr>st_mode = 420, st_uid = 1000, st_gid = 1000\<rparr>),
      temp_name = (\<lambda>h. ''/tmp/t.mp3''),
      size_result = (\<lambda>h p. if p = ''/tmp/t.mp3'' then 40 else 100),
      file_result = (\<lambda>h p easy. None),
      status_code = (\<lambda>h m. 200)\<rparr>"

text \<open>The encoder's output is as large as the source, or larger.\<close>

definition env_same_size :: env where
  "env_same_size = quiet_env\<lparr>size_result := (\<lambda>h p. 100)\<rparr>"

definition env_grow :: env where
  "env_grow = quiet_env\<lparr>size_result := (\<lambda>h p. if p = ''/tmp/t.mp3'' then 150 else 100)\<rparr>"

text \<open>Mutagen recognises every file, with the target bitrate and both tags.\<close>

definition env_tagged :: env where
  "env_tagged =
     quiet_env\<lparr>file_result :=
       (\<lambda>h p easy. Some \<lparr>info_bitrate = 256000,
                            mtags = [(''artist'', [''A'']), (''title'', [''T''])]\<rparr>)\<rparr>"

text \<open>
  Mutagen recognises every file, at the target bitrate and without tags; at
  half the target bitrate; with a bitrate below 1000 bits per second.
\<close>

definition env_untagged :: env where
  "env_untagged =
     quiet_env\<lparr>file_result := (\<lambda>h p easy. Some \<lparr>info_bitrate = 256000, mtags = []\<rparr>)\<rparr>"

definition env_low_bitrate :: env where
  "env_low_bitrate =
     quiet_env\<lparr>file_result :=
       (\<lambda>h p easy. Some \<lparr>info_bitrate = 128000,
                            mtags = [(''artist'', [''A'']), (''title'', [''T''])]\<rparr>)\<rparr>"

definition env_zero_bitrate :: env where
  "env_zero_bitrate =
     quiet_env\<lparr>file_result :=
       (\<lambda>h p easy. Some \<lparr>info_bitrate = 0,
                            mtags = [(''artist'', [''A'']), (''title'', [''T''])]\<rparr>)\<rparr>"


text \<open>
  Mutagen raises on \<^verbatim>\<open>music/song.mp3\<close>, one of two files of the walk; or it
  does not recognise it and returns \<^verbatim>\<open>None\<close>.
\<close>

definition env_unreadable_mp3 :: env where
  "env_unreadable_mp3 =
     quiet_env\<lparr>walk_result := (\<lambda>h p. [(''music'', [''song.mp3'', ''a.wav''])]),
               raises := (\<lambda>h c. case c of
                            Mutagen_File q easy \<Rightarrow>
                              if q = ''music/song.mp3'' then Some (Raised ''MutagenError'')
                              else None
                          | _ \<Rightarrow> None)\<rparr>"

definition env_unrecognised_mp3 :: env where
  "env_unrecognised_mp3 =
     quiet_env\<lparr>walk_result := (\<lambda>h p. [(''music'', [''song.mp3'', ''a.wav''])])\<rparr>"

text \<open>
  The encoder can read the source, mutagen cannot: it raises on every file but
  the artifact.
\<close>

definition env_unreadable_source :: env where
  "env_unreadable_source =
     quiet_env\<lparr>raises := (\<lambda>h c. case c of
                            Mutagen_File q easy \<Rightarrow>
                              if q = ''/tmp/t.mp3'' then None
                              else Some (Raised ''MutagenError'')
                          | _ \<Rightarrow> None),
               file_result := (\<lambda>h p easy. Some \<lparr>info_bitrate = 256000, mtags = []\<rparr>)\<rparr>"

text \<open>
  The tag objects behave as mutagen's do for an MP3 artifact read without
  \<^verbatim>\<open>easy=True\<close>: its keys are ID3 frames, so merging the Vorbis comments of a
  FLAC source into it raises \<^verbatim>\<open>TypeError\<close>, and so does assigning a string to
  one of its items. The source's tags are readable and hold neither artist nor
  title.
\<close>

definition env_id3_artifact :: env where
  "env_id3_artifact =
     quiet_env\<lparr>raises := (\<lambda>h c. case c of
                            Update q ts \<Rightarrow> Some TypeError
                          | Setitem q k v \<Rightarrow>
                              if q = ''/tmp/t.mp3'' then Some TypeError else None
                          | _ \<Rightarrow> None),
               file_result := (\<lambda>h p easy.
                  if p = ''/tmp/t.mp3''
                  then Some \<lparr>info_bitrate = 256000, mtags = [(''TSSE'', [''Lavf''])]\<rparr>
                  else Some \<lparr>info_bitrate = 900000, mtags = [(''comment'', [''ripped''])]\<rparr>)\<rparr>"

text \<open>
  A walk over two directories with four files: two are converted and become
  smaller, one has no supported extension, one is converted and grows.
\<close>

definition env_three_files :: env where
  "env_three_files =
     env_tagged\<lparr>walk_result := (\<lambda>h p. [(''music'', [''a.wav'', ''notes.txt'']),
                                       (''music/live'', [''b.flac'', ''c.ogg''])]),
                size_result := (\<lambda>h p. if p = ''/tmp/t.mp3'' then 40
                                       else if p = ''music/a.wav'' then 100
                                       else if p = ''music/live/c.ogg'' then 30 else 500)\<rparr>"


section \<open>Properties\<close>

subsection \<open>Computations: events and results\<close>

lemma fst_bind_io:
  "fst (bind_io m f h) =
     (case snd (m h) of
        Inl e \<Rightarrow> fst (m h)
      | Inr a \<Rightarrow> fst (m h) @ fst (f a (h @ fst (m h))))"
  by (simp add: bind_io_def split: prod.splits sum.splits)

lemma snd_bind_io:
  "snd (bind_io m f h) =
     (case snd (m h) of Inl e \<Rightarrow> Inl e | Inr a \<Rightarrow> snd (f a (h @ fst (m h))))"
  by (simp add: bind_io_def split: prod.splits sum.splits)

lemma fst_catch_io:
  "fst (catch_io m g h) =
     (case snd (m h) of
        Inl e \<Rightarrow> fst (m h) @ fst (g e (h @ fst (m h)))
      | Inr a \<Rightarrow> fst (m h))"
  by (simp add: catch_io_def split: prod.splits sum.splits)

lemma snd_catch_io:
  "snd (catch_io m g h) =
     (case snd (m h) of Inl e \<Rightarrow> snd (g e (h @ fst (m h))) | Inr a \<Rightarrow> Inr a)"
  by (simp add: catch_io_def split: prod.splits sum.splits)

text \<open>Every event of a computation satisfies \<open>P\<close> when those of its parts do.\<close>

lemma all_return: "list_all P (fst (return_io a h))"
  by (simp add: return_io_def)

lemma all_raise: "list_all P (fst (raise_io e h))"
  by (simp add: raise_io_def)

lemma all_print: "P (Ev (Print m) None) \<Longrightarrow> list_all P (fst (print_io m h))"
  by (simp add: print_io_def)

lemma all_call: "(\<And>r. P (Ev c r)) \<Longrightarrow> list_all P (fst (call_io env c h))"
  by (simp add: call_io_def)

lemma all_bind:
  "(\<And>h. list_all P (fst (m h))) \<Longrightarrow> (\<And>a h. list_all P (fst (f a h))) \<Longrightarrow>
   list_all P (fst (bind_io m f h))"
  by (simp add: fst_bind_io split: sum.splits)

lemma all_catch:
  "(\<And>h. list_all P (fst (m h))) \<Longrightarrow> (\<And>e h. list_all P (fst (g e h))) \<Longrightarrow>
   list_all P (fst (catch_io m g h))"
  by (simp add: fst_catch_io split: sum.splits)

lemma all_read: "(\<And>r. P (Ev c r)) \<Longrightarrow> list_all P (fst (read_io env c res h))"
  unfolding read_io_def by (rule all_bind) (simp_all add: call_io_def)

lemma all_attempt:
  "(\<And>h. list_all P (fst (m h))) \<Longrightarrow> list_all P (fst (attempt_io m h))"
  unfolding attempt_io_def by (intro all_catch all_bind all_return)

lemmas all_intros =
  all_bind all_catch all_attempt all_read all_call all_print all_return all_raise

lemma not_ex_if_all: "list_all (\<lambda>e. \<not> P e) xs \<Longrightarrow> \<not> list_ex P xs"
  by (simp add: list_all_iff list_ex_iff)

subsection \<open>Notifications\<close>

lemma snd_send_slack_message: "snd (send_slack_message env message h) = Inr ()"
  by (simp add: send_slack_message_def snd_catch_io snd_bind_io print_io_def read_io_def
      split: sum.splits)

lemma snd_post_legacy: "snd (post_legacy env message h) = Inr ()"
  by (simp add: post_legacy_def snd_catch_io snd_bind_io print_io_def read_io_def
      split: sum.splits)

lemma all_send_slack_message:
  "(\<And>r. P (Ev (Requests_post message) r)) \<Longrightarrow> P (Ev (Print Slack_sent) None) \<Longrightarrow>
   (\<And>c. P (Ev (Print (Slack_failed c)) None)) \<Longrightarrow>
   (\<And>e. P (Ev (Print (Slack_error e)) None)) \<Longrightarrow>
   list_all P (fst (send_slack_message env message h))"
  unfolding send_slack_message_def
  by (intro all_intros) (auto intro!: all_intros)

lemma all_post_legacy:
  "(\<And>r. P (Ev (Requests_post message) r)) \<Longrightarrow> P (Ev (Print Slack_sent) None) \<Longrightarrow>
   (\<And>c. P (Ev (Print (Slack_failed c)) None)) \<Longrightarrow>
   (\<And>e. P (Ev (Print (Slack_error e)) None)) \<Longrightarrow>
   list_all P (fst (post_legacy env message h))"
  unfolding post_legacy_def
  by (intro all_intros) (auto intro!: all_intros)

subsection \<open>Unsupported extensions\<close>

text \<open>
  Claim C10. A path whose lower-cased extension is not a supported one makes
  \<open>process_file\<close> return 0 without a single call (no tag read, no transcoding,
  no move, no removal), and a result of 0 leaves both counters of the summary
  as they are. The loop of the sequential script likewise passes such a file
  by without a call and without changing the counters.
\<close>

theorem unsupported_extension_untouched:
  "(lower (snd (splitext file_path)) \<notin> set SUPPORTED_EXTENSIONS \<longrightarrow>
      process_file env file_path h = ([], Inr 0) \<and> tally 0 acc = acc) \<and>
   (lower (snd (splitext file)) \<notin> set SUPPORTED_EXTENSIONS \<longrightarrow>
      visit_legacy env root file acc h = ([], Inr acc))"
  by (simp add: process_file_def visit_legacy_def return_io_def tally_def Let_def
      split: prod.splits)

theorem unsupported_extension_untouched_witness:
  "lower (snd (splitext ''music/notes.TXT'')) \<notin> set SUPPORTED_EXTENSIONS \<and>
   process_file quiet_env ''music/notes.TXT'' [] = ([], Inr 0) \<and>
   tally 0 (3, 7) = (3, 7) \<and>
   lower (snd (splitext ''notes.TXT'')) \<notin> set SUPPORTED_EXTENSIONS \<and>
   visit_legacy quiet_env ''music'' ''notes.TXT'' (3, 7) [] = ([], Inr (3, 7))"
proof -
  have a: "lower (snd (splitext ''music/notes.TXT'')) \<notin> set SUPPORTED_EXTENSIONS"
    by code_simp
  have b: "lower (snd (splitext ''notes.TXT'')) \<notin> set SUPPORTED_EXTENSIONS"
    by code_simp
  show ?thesis
    using a b
      unsupported_extension_untouched
        [of "''music/notes.TXT''" quiet_env "[]" "(3, 7)" "''notes.TXT''" "''music''"]
    by simp
qed

subsection \<open>The events of each part of a conversion\<close>

lemma all_prepare:
  "(\<And>r. P (Ev (From_file p) r)) \<Longrightarrow> (\<And>r. P (Ev (Os_stat p) r)) \<Longrightarrow>
   (\<And>r. P (Ev Named_temporary_file r)) \<Longrightarrow> (\<And>t b r. P (Ev (Export t b) r)) \<Longrightarrow>
   (\<And>q r. P (Ev (Getsize q) r)) \<Longrightarrow>
   list_all P (fst (prepare env p h))"
  unfolding prepare_def by (intro all_intros) simp_all

lemma all_copy_tags:
  "(\<And>q r. P (Ev (Mutagen_File q False) r)) \<Longrightarrow> (\<And>ts r. P (Ev (Update t ts) r)) \<Longrightarrow>
   (\<And>ts r. P (Ev (Save t ts) r)) \<Longrightarrow>
   list_all P (fst (copy_tags env p t h))"
  unfolding copy_tags_def
  by (auto intro!: all_intros split: sum.splits option.splits prod.splits)

lemma all_recover_tags:
  "(\<And>k v r. P (Ev (Setitem t k v) r)) \<Longrightarrow> (\<And>ts r. P (Ev (Save t ts) r)) \<Longrightarrow>
   (\<And>m r. P (Ev (Requests_post m) r)) \<Longrightarrow>
   (\<And>m. \<not> reports_conversion (Ev (Print m) None) \<Longrightarrow> P (Ev (Print m) None)) \<Longrightarrow>
   list_all P (fst (recover_tags env p t v x h))"
  unfolding recover_tags_def
  by (auto intro!: all_intros all_send_slack_message
      split: sum.splits option.splits prod.splits var.splits)

lemma all_metadata_copying:
  "(\<And>q r. P (Ev (Mutagen_File q False) r)) \<Longrightarrow> (\<And>ts r. P (Ev (Update t ts) r)) \<Longrightarrow>
   (\<And>k v r. P (Ev (Setitem t k v) r)) \<Longrightarrow> (\<And>ts r. P (Ev (Save t ts) r)) \<Longrightarrow>
   (\<And>m r. P (Ev (Requests_post m) r)) \<Longrightarrow>
   (\<And>m. \<not> reports_conversion (Ev (Print m) None) \<Longrightarrow> P (Ev (Print m) None)) \<Longrightarrow>
   list_all P (fst (metadata_copying env p t h))"
  unfolding metadata_copying_def
  by (auto intro!: all_bind all_return all_copy_tags all_recover_tags
      split: sum.splits)

lemma all_preserve_metadata_legacy:
  "(\<And>q r. P (Ev (Mutagen_File q False) r)) \<Longrightarrow> (\<And>ts r. P (Ev (Update t ts) r)) \<Longrightarrow>
   (\<And>ts r. P (Ev (Save t ts) r)) \<Longrightarrow>
   list_all P (fst (preserve_metadata_legacy env p t h))"
  unfolding preserve_metadata_legacy_def
  by (auto intro!: all_intros simp: Let_def split: option.splits)

lemma all_commit:
  "(\<And>a r. P (Ev (Move a (new_path pr)) r)) \<Longrightarrow>
   (\<And>m r. P (Ev (Chmod (new_path pr) m) r)) \<Longrightarrow>
   (\<And>u g r. P (Ev (Chown (new_path pr) u g) r)) \<Longrightarrow>
   (\<And>r. p \<noteq> new_path pr \<Longrightarrow> P (Ev (Remove p) r)) \<Longrightarrow>
   list_all P (fst (commit env p pr h))"
  unfolding commit_def by (intro all_intros) (auto intro!: all_intros)

lemma all_failure_events:
  "(\<And>m r. P (Ev (Requests_post m) r)) \<Longrightarrow>
   (\<And>m. \<not> reports_conversion (Ev (Print m) None) \<Longrightarrow> P (Ev (Print m) None)) \<Longrightarrow>
   list_all P (failure_events env p e h)"
  unfolding failure_events_def
  by (simp add: all_send_slack_message)

lemma all_failure_events_legacy:
  "(\<And>m r. P (Ev (Requests_post m) r)) \<Longrightarrow>
   (\<And>m. \<not> reports_conversion (Ev (Print m) None) \<Longrightarrow> P (Ev (Print m) None)) \<Longrightarrow>
   list_all P (failure_events_legacy env p e h)"
  unfolding failure_events_legacy_def
  by (simp add: all_post_legacy)

text \<open>The traces \<open>commit\<close> can leave.\<close>

lemma commit_traces:
  "commit env p pr h = (es, r) \<Longrightarrow>
   (\<exists>x. es = [Ev (Move (temp_output_path pr) (new_path pr)) (Some x)] \<and> r = Inl x) \<or>
   (\<exists>x. es = [Ev (Move (temp_output_path pr) (new_path pr)) None,
              Ev (Chmod (new_path pr) (original_permissions pr)) (Some x)] \<and> r = Inl x) \<or>
   (\<exists>x. es = [Ev (Move (temp_output_path pr) (new_path pr)) None,
              Ev (Chmod (new_path pr) (original_permissions pr)) None,
              Ev (Chown (new_path pr) (st_uid (original_stat pr)) (st_gid (original_stat pr))) (Some x)]
         \<and> r = Inl x) \<or>
   (es = [Ev (Move (temp_output_path pr) (new_path pr)) None,
          Ev (Chmod (new_path pr) (original_permissions pr)) None,
          Ev (Chown (new_path pr) (st_uid (original_stat pr)) (st_gid (original_stat pr))) None]
      \<and> r = Inr () \<and> p = new_path pr) \<or>
   (\<exists>x. es = [Ev (Move (temp_output_path pr) (new_path pr)) None,
          Ev (Chmod (new_path pr) (original_permissions pr)) None,
          Ev (Chown (new_path pr) (st_uid (original_stat pr)) (st_gid (original_stat pr))) None,
          Ev (Remove p) x]
      \<and> r = (case x of None \<Rightarrow> Inr () | Some e \<Rightarrow> Inl e) \<and> p \<noteq> new_path pr)"
  unfolding commit_def
  by (auto simp: bind_io_def call_io_def return_io_def split: option.splits if_splits)


lemma prepare_new_path:
  "prepare env p h = (es, Inr pr) \<Longrightarrow> new_path pr = fst (splitext p) @ ''.mp3''"
  unfolding prepare_def
  by (auto simp: bind_io_def call_io_def read_io_def return_io_def split: option.splits prod.splits sum.splits)

lemma prepare_exported:
  "prepare env p h = (es, Inr pr) \<Longrightarrow>
   Ev (Export (temp_output_path pr) (desired_bitrate env)) None \<in> set es"
  unfolding prepare_def
  by (auto simp: bind_io_def call_io_def read_io_def return_io_def
      split: option.splits prod.splits sum.splits)

subsection \<open>Both versions of \<^verbatim>\<open>convert_to_mp3\<close> have the staged shape\<close>

lemma failure_handler:
  "bind_io (print_io (Error_converting p e))
     (\<lambda>_. bind_io (send_slack_message env (Error_converting p e)) (\<lambda>_. return_io 0)) h =
   (failure_events env p e h, Inr 0)"
  by (simp add: prod_eq_iff fst_bind_io snd_bind_io print_io_def return_io_def
      snd_send_slack_message failure_events_def)

lemma failure_handler_legacy:
  "bind_io (print_io (Error_converting p e))
     (\<lambda>_. bind_io (post_legacy env (Error_converting p e)) (\<lambda>_. return_io 0)) h =
   (failure_events_legacy env p e h, Inr 0)"
  by (simp add: prod_eq_iff fst_bind_io snd_bind_io print_io_def return_io_def
      snd_post_legacy failure_events_legacy_def)

lemma convert_to_mp3_staged:
  "convert_to_mp3 env p =
     staged env p (\<lambda>pr. metadata_copying env p (temp_output_path pr)) (failure_events env p)"
  unfolding convert_to_mp3_def catch_io_def failure_handler staged_def
  by (rule ext)
     (simp add: bind_io_def print_io_def return_io_def split: prod.splits sum.splits)

lemma convert_to_mp3_legacy_staged:
  "convert_to_mp3_legacy env p =
     staged env p (\<lambda>pr. preserve_metadata_legacy env p (temp_output_path pr))
       (failure_events_legacy env p)"
  unfolding convert_to_mp3_legacy_def catch_io_def failure_handler_legacy staged_def
  by (rule ext)
     (simp add: bind_io_def print_io_def return_io_def split: prod.splits sum.splits)

lemma staged_returns: "\<exists>s. snd (staged env p M F h) = Inr s"
  by (simp add: staged_def split: prod.splits sum.splits)

lemma staged_positive:
  "snd (staged env p M F h) = Inr s \<Longrightarrow> s \<noteq> 0 \<Longrightarrow>
   list_ex reports_conversion (fst (staged env p M F h))"
  by (auto simp: staged_def split: prod.splits sum.splits)

lemma staged_converted:
  assumes M: "\<And>pr h. list_all (\<lambda>e. \<not> reports_conversion e) (fst (M pr h))"
    and F: "\<And>x h. list_all (\<lambda>e. \<not> reports_conversion e) (F x h)"
    and c: "list_ex reports_conversion (fst (staged env p M F h))"
  shows "\<exists>pr. snd (prepare env p h) = Inr pr \<and>
           snd (staged env p M F h) = Inr (int (original_size pr) - int (new_size pr))"
proof -
  have q1: "list_all (\<lambda>e. \<not> reports_conversion e) (fst (prepare env p h))"
    by (rule all_prepare) simp_all
  have q2: "list_all (\<lambda>e. \<not> reports_conversion e) (fst (commit env p pr h'))" for pr h'
    by (rule all_commit) simp_all
  have 1: "\<not> list_ex reports_conversion es" if "prepare env p h = (es, r)" for es r
    using not_ex_if_all[OF q1] that by simp
  have 2: "\<not> list_ex reports_conversion es" if "commit env p pr h' = (es, r)" for pr h' es r
    using not_ex_if_all[OF q2, of pr h'] that by simp
  have 3: "\<not> list_ex reports_conversion es" if "M pr h' = (es, r)" for pr h' es r
    using not_ex_if_all[OF M, of pr h'] that by simp
  have 4: "\<not> list_ex reports_conversion (F x h')" for x h'
    by (rule not_ex_if_all) (rule F)
  show ?thesis
    using c 1 2 3 4
    by (auto simp: staged_def split: prod.splits sum.splits)
qed

subsection \<open>The order of the commit\<close>

lemma order_neutral:
  "list_all (\<lambda>e. commit_step src dst ph e = Some ph) es \<Longrightarrow>
   in_commit_order src dst ph (es @ es') = in_commit_order src dst ph es'"
  by (induction es) auto

lemma order_neutral_end:
  "list_all (\<lambda>e. commit_step src dst ph e = Some ph) es \<Longrightarrow> in_commit_order src dst ph es"
  using order_neutral[of src dst ph es "[]"] by simp

lemma harmless_step: "harmless e \<Longrightarrow> commit_step src dst ph e = Some ph"
  by (cases e; cases "case e of Ev c r \<Rightarrow> c") (auto simp: harmless_def commit_step_def)

lemma harmless_failure_events: "list_all harmless (failure_events env p e h)"
  by (rule all_failure_events) (simp_all add: harmless_def)

lemma harmless_failure_events_legacy: "list_all harmless (failure_events_legacy env p e h)"
  by (rule all_failure_events_legacy) (simp_all add: harmless_def)

lemma order_harmless:
  "list_all harmless es \<Longrightarrow> in_commit_order src dst ph es"
  by (rule order_neutral_end) (simp add: list_all_iff harmless_step)

lemma order_prepare:
  "list_all (\<lambda>e. commit_step src dst In_scratch e = Some In_scratch) (fst (prepare env p h))"
  by (rule all_prepare) (simp_all add: commit_step_def)

lemma order_metadata_copying:
  "list_all (\<lambda>e. commit_step src dst In_scratch e = Some In_scratch)
     (fst (metadata_copying env p t h))"
  by (rule all_metadata_copying) (simp_all add: commit_step_def split: msg.splits)

lemma order_preserve_metadata_legacy:
  "list_all (\<lambda>e. commit_step src dst In_scratch e = Some In_scratch)
     (fst (preserve_metadata_legacy env p t h))"
  by (rule all_preserve_metadata_legacy) (simp_all add: commit_step_def)

lemma order_commit:
  assumes "commit env p pr h = (es, r)" and "list_all harmless es'"
  shows "in_commit_order p (new_path pr) In_scratch (es @ es')"
  using commit_traces[OF assms(1)] order_harmless[OF assms(2)]
  by (auto simp: commit_step_def split: option.splits)


lemma order_staged:
  assumes M: "\<And>pr h. list_all (\<lambda>e. commit_step p dst In_scratch e = Some In_scratch) (fst (M pr h))"
    and F: "\<And>x h. list_all harmless (F x h)"
    and dst: "dst = fst (splitext p) @ ''.mp3''"
  shows "in_commit_order p dst In_scratch (fst (staged env p M F h))"
proof -
  obtain e1 r1 where p1: "prepare env p h = (e1, r1)" by (cases "prepare env p h")
  have n1: "list_all (\<lambda>e. commit_step p dst In_scratch e = Some In_scratch) e1"
    using order_prepare[of p dst env p h] p1 by simp
  show ?thesis
  proof (cases r1)
    case (Inl x)
    then show ?thesis
      using p1 n1 F by (simp add: staged_def order_neutral order_harmless)
  next
    case (Inr pr)
    have np: "new_path pr = dst" using p1 Inr prepare_new_path dst by simp
    obtain e2 r2 where p2: "M pr (h @ e1) = (e2, r2)" by (cases "M pr (h @ e1)")
    have n2: "list_all (\<lambda>e. commit_step p dst In_scratch e = Some In_scratch) e2"
      using M[of pr "h @ e1"] p2 by simp
    show ?thesis
    proof (cases r2)
      case (Inl x)
      then show ?thesis
        using p1 \<open>r1 = Inr pr\<close> p2 n1 n2 F
        by (simp add: staged_def order_neutral order_harmless)
    next
      case (Inr u)
      obtain e3 r3 where p3: "commit env p pr (h @ e1 @ e2) = (e3, r3)"
        by (cases "commit env p pr (h @ e1 @ e2)")
      have "in_commit_order p dst In_scratch (e3 @ es')" if "list_all harmless es'" for es'
        using order_commit[OF p3 that] np by simp
      then show ?thesis
        using p1 \<open>r1 = Inr pr\<close> p2 Inr p3 n1 n2 F
        by (cases r3) (simp_all add: staged_def order_neutral harmless_def)
    qed
  qed
qed

subsection \<open>The audio is never lost\<close>

lemma keeps_mono: "keeps e \<Longrightarrow> S \<subseteq> apply_event e S"
  by (cases "(e, S)" rule: apply_event.cases) (auto simp: keeps_def)

lemma keeps_fold: "list_all keeps es \<Longrightarrow> S \<subseteq> fold apply_event es S"
  by (induction es arbitrary: S) (auto dest: keeps_mono)

lemma never_lost_append:
  "never_lost S (es @ es') = (never_lost S es \<and> never_lost (fold apply_event es S) es')"
  by (induction es arbitrary: S) (auto, (cases es'; simp)+)

lemma never_lost_keeps: "list_all keeps es \<Longrightarrow> S \<noteq> {} \<Longrightarrow> never_lost S es"
  by (induction es arbitrary: S) (auto dest: keeps_mono)

lemma harmless_keeps: "harmless e \<Longrightarrow> keeps e"
  by (cases e; cases "case e of Ev c r \<Rightarrow> c") (auto simp: harmless_def keeps_def)

lemma exported_fold:
  "list_all keeps es \<Longrightarrow> Ev (Export t b) None \<in> set es \<Longrightarrow> t \<in> fold apply_event es S"
proof (induction es arbitrary: S)
  case Nil
  then show ?case by simp
next
  case (Cons e es)
  show ?case
  proof (cases "e = Ev (Export t b) None")
    case True
    then show ?thesis using Cons.prems keeps_fold[of es "insert t S"] by auto
  next
    case False
    then show ?thesis using Cons by auto
  qed
qed


lemma inert_apply: "inert e \<Longrightarrow> apply_event e S = S"
  by (cases "(e, S)" rule: apply_event.cases) (auto simp: inert_def)

lemma inert_keeps: "inert e \<Longrightarrow> keeps e"
  by (auto simp: inert_def keeps_def split: event.splits call.splits)

lemma inert_fold: "list_all inert es \<Longrightarrow> fold apply_event es S = S"
  by (induction es) (auto simp: inert_apply)

lemma harmless_inert: "harmless e \<Longrightarrow> inert e"
  by (cases e; cases "case e of Ev c r \<Rightarrow> c") (auto simp: harmless_def inert_def)

lemma keeps_prepare: "list_all keeps (fst (prepare env p h))"
  by (rule all_prepare) (simp_all add: keeps_def)

lemma inert_metadata_copying: "list_all inert (fst (metadata_copying env p t h))"
  by (rule all_metadata_copying) (simp_all add: inert_def)

lemma inert_preserve_metadata_legacy: "list_all inert (fst (preserve_metadata_legacy env p t h))"
  by (rule all_preserve_metadata_legacy) (simp_all add: inert_def)

lemma never_lost_commit:
  assumes "commit env p pr h = (es, r)" and "temp_output_path pr \<in> S" and "p \<in> S"
    and "list_all keeps es'"
  shows "never_lost S (es @ es')"
  using commit_traces[OF assms(1)] assms(2,3) never_lost_keeps[OF assms(4)]
  by (auto split: option.splits)

lemma list_all_mono': "list_all P xs \<Longrightarrow> (\<And>x. P x \<Longrightarrow> Q x) \<Longrightarrow> list_all Q xs"
  by (simp add: list_all_iff)

lemma never_lost_staged:
  assumes M: "\<And>pr h. list_all inert (fst (M pr h))"
    and F: "\<And>x h. list_all harmless (F x h)"
  shows "never_lost {p} (fst (staged env p M F h))"
proof -
  obtain e1 r1 where p1: "prepare env p h = (e1, r1)" by (cases "prepare env p h")
  have k1: "list_all keeps e1" using keeps_prepare[of env p h] p1 by simp
  have kf: "list_all keeps (F x h')" for x h'
    by (rule list_all_mono'[OF F]) (rule harmless_keeps)
  show ?thesis
  proof (cases r1)
    case (Inl x)
    then show ?thesis
      using p1 k1 kf by (simp add: staged_def never_lost_keeps)
  next
    case (Inr pr)
    let ?S = "fold apply_event e1 {p}"
    have s1: "p \<in> ?S" using keeps_fold[OF k1, of "{p}"] by auto
    have s2: "temp_output_path pr \<in> ?S"
      using exported_fold[OF k1] prepare_exported p1 Inr by blast
    obtain e2 r2 where p2: "M pr (h @ e1) = (e2, r2)" by (cases "M pr (h @ e1)")
    have i2: "list_all inert e2" using M[of pr "h @ e1"] p2 by simp
    have k2: "list_all keeps e2" by (rule list_all_mono'[OF i2]) (rule inert_keeps)
    show ?thesis
    proof (cases r2)
      case (Inl x)
      then show ?thesis
        using p1 \<open>r1 = Inr pr\<close> p2 k1 k2 kf
        by (simp add: staged_def never_lost_keeps)
    next
      case (Inr u)
      obtain e3 r3 where p3: "commit env p pr (h @ e1 @ e2) = (e3, r3)"
        by (cases "commit env p pr (h @ e1 @ e2)")
      have c: "never_lost ?S (e3 @ es')" if "list_all keeps es'" for es'
        using never_lost_commit[OF p3 s2 s1 that] .
      have n2: "never_lost ?S e2" using never_lost_keeps[OF k2] s1 by auto
      have "never_lost {p} (e1 @ e2 @ e3 @ es')" if "list_all keeps es'" for es'
        using c[OF that] k1 i2 n2
        by (simp add: never_lost_append never_lost_keeps inert_fold)
      then show ?thesis
        using p1 \<open>r1 = Inr pr\<close> p2 Inr p3 kf
        by (cases r3) (simp_all add: staged_def keeps_def)
    qed
  qed
qed

text \<open>
  Claim C8. In every run of \<^verbatim>\<open>convert_to_mp3\<close>, of either script and in
  every environment, the trace obeys the order of the commit: permissions and
  ownership are set, and the source is removed, only after the artifact has
  been moved to the new path; the source is removed only when the new path
  differs from it, and no mutation follows its removal. Consequently, before
  and after every single call, some path holds the audio.
\<close>

theorem source_removed_last:
  "in_commit_order p (fst (splitext p) @ ''.mp3'') In_scratch (fst (convert_to_mp3 env p h)) \<and>
   never_lost {p} (fst (convert_to_mp3 env p h)) \<and>
   in_commit_order p (fst (splitext p) @ ''.mp3'') In_scratch
     (fst (convert_to_mp3_legacy env p h)) \<and>
   never_lost {p} (fst (convert_to_mp3_legacy env p h))"
  unfolding convert_to_mp3_staged convert_to_mp3_legacy_staged
  by (intro conjI order_staged never_lost_staged order_metadata_copying
      order_preserve_metadata_legacy inert_metadata_copying inert_preserve_metadata_legacy
      harmless_failure_events harmless_failure_events_legacy refl)

subsection \<open>The summary of the batch\<close>

lemma fold_tally:
  "fold tally results acc =
     (fst acc + length (filter (\<lambda>s. 0 < s) results),
      snd acc + sum_list (map (max 0) results))"
  by (induction results arbitrary: acc) (auto simp: tally_def split: prod.splits)

lemma report_result: "snd (report env results h) = Inr ()"
  by (simp add: report_def summarise_def fold_tally snd_bind_io print_io_def return_io_def
      send_slack_notification_def snd_send_slack_message)

lemma report_last:
  "last (fst (report env results h)) =
     Ev (Print (Conversion_completed (length (filter (\<lambda>s. 0 < s) results))
                  (sum_list (map (max 0) results)))) None"
  by (simp add: report_def summarise_def fold_tally fst_bind_io snd_bind_io print_io_def
      return_io_def send_slack_notification_def snd_send_slack_message)

lemma report_nonempty: "fst (report env results h) \<noteq> []"
  by (simp add: report_def summarise_def fold_tally fst_bind_io snd_bind_io print_io_def
      return_io_def send_slack_notification_def snd_send_slack_message)

lemma collect_values: "collect (map Inr results) h = ([], Inr results)"
  by (induction results arbitrary: h) (simp_all add: return_io_def bind_io_def)

lemma convert_positive:
  "snd (convert_to_mp3 env p h) = Inr s \<Longrightarrow> s \<noteq> 0 \<Longrightarrow>
   list_ex reports_conversion (fst (convert_to_mp3 env p h))"
  unfolding convert_to_mp3_staged by (rule staged_positive)

lemma process_file_positive:
  assumes "snd (process_file env p h) = Inr s" and "0 < s"
  shows "list_ex reports_conversion (fst (process_file env p h))"
  using assms convert_positive[of env p _ s]
  by (auto simp: process_file_def Let_def fst_bind_io snd_bind_io return_io_def
      split: if_splits sum.splits)


subsection \<open>The value a conversion returns\<close>

lemma prepare_sizes:
  assumes "snd (prepare env p h) = Inr pr"
  shows "temp_output_path pr = artifact_path env p h \<and>
         original_size pr =
           size_result env (before_sizes env p h @ [Ev (Getsize p) None]) p \<and>
         new_size pr =
           size_result env
             (before_sizes env p h @
              [Ev (Getsize p) None, Ev (Getsize (artifact_path env p h)) None])
             (artifact_path env p h) \<and>
         h @ fst (prepare env p h) =
           before_sizes env p h @
           [Ev (Getsize p) None, Ev (Getsize (artifact_path env p h)) None]"
  using assms
  unfolding prepare_def artifact_path_def before_sizes_def
  by (auto simp: bind_io_def call_io_def read_io_def return_io_def
      split: option.splits prod.splits sum.splits)

text \<open>
  Claim C3, as amended. A run of \<^verbatim>\<open>convert_to_mp3\<close> that reports the
  conversion returns the size read for the source path minus the size read for
  the artifact, the latter right after the export and before any tag is copied
  into the artifact, without clamping: the value may be zero or negative. The
  clamping happens where the values are added up: a value \<open>s\<close> raises the
  total by \<open>max 0 s\<close>.
\<close>

theorem conversion_returns_size_difference:
  "(list_ex reports_conversion (fst (convert_to_mp3 env p h)) \<longrightarrow>
      snd (convert_to_mp3 env p h) =
        Inr (int (size_result env (before_sizes env p h @ [Ev (Getsize p) None]) p) -
             int (size_result env
                    (before_sizes env p h @
                     [Ev (Getsize p) None, Ev (Getsize (artifact_path env p h)) None])
                    (artifact_path env p h)))) \<and>
   (list_ex reports_conversion (fst (convert_to_mp3_legacy env p h)) \<longrightarrow>
      snd (convert_to_mp3_legacy env p h) =
        Inr (int (size_result env (before_sizes env p h @ [Ev (Getsize p) None]) p) -
             int (size_result env
                    (before_sizes env p h @
                     [Ev (Getsize p) None, Ev (Getsize (artifact_path env p h)) None])
                    (artifact_path env p h)))) \<and>
   snd (tally s (c, t)) = t + max 0 s"
proof -
  have 1: "list_all (\<lambda>e. \<not> reports_conversion e) (fst (metadata_copying env p t' h'))" for t' h'
    by (rule all_metadata_copying) simp_all
  have 2: "list_all (\<lambda>e. \<not> reports_conversion e) (fst (preserve_metadata_legacy env p t' h'))"
    for t' h'
    by (rule all_preserve_metadata_legacy) simp_all
  have 3: "list_all (\<lambda>e. \<not> reports_conversion e) (failure_events env p x h')" for x h'
    by (rule all_failure_events) simp_all
  have 4: "list_all (\<lambda>e. \<not> reports_conversion e) (failure_events_legacy env p x h')" for x h'
    by (rule all_failure_events_legacy) simp_all
  have A: "\<exists>pr. snd (prepare env p h) = Inr pr \<and>
           snd (convert_to_mp3 env p h) = Inr (int (original_size pr) - int (new_size pr))"
    if "list_ex reports_conversion (fst (convert_to_mp3 env p h))"
    using that unfolding convert_to_mp3_staged
    by (rule staged_converted[rotated 2]) (rule 1 3)+
  have B: "\<exists>pr. snd (prepare env p h) = Inr pr \<and>
           snd (convert_to_mp3_legacy env p h) = Inr (int (original_size pr) - int (new_size pr))"
    if "list_ex reports_conversion (fst (convert_to_mp3_legacy env p h))"
    using that unfolding convert_to_mp3_legacy_staged
    by (rule staged_converted[rotated 2]) (rule 2 4)+
  show ?thesis
    using A B prepare_sizes[of env p h]
    by (auto simp: tally_def)
qed

theorem conversion_returns_size_difference_witness:
  "list_ex reports_conversion (fst (convert_to_mp3 env_tagged ''music/a.wav'' [])) \<and>
   list_ex reports_conversion (fst (convert_to_mp3_legacy env_tagged ''music/a.wav'' [])) \<and>
   snd (convert_to_mp3 env_tagged ''music/a.wav'' []) = Inr 60 \<and>
   snd (convert_to_mp3_legacy env_tagged ''music/a.wav'' []) = Inr 60 \<and>
   snd (tally (- 50) (2, 10)) = 10"
proof -
  have a: "list_ex reports_conversion (fst (convert_to_mp3 env_tagged ''music/a.wav'' []))"
    by code_simp
  have b: "list_ex reports_conversion (fst (convert_to_mp3_legacy env_tagged ''music/a.wav'' []))"
    by code_simp
  show ?thesis
    using a b
      conversion_returns_size_difference [of env_tagged "''music/a.wav''" "[]" "- 50" 2 10]
    by (simp add: env_tagged_def quiet_env_def artifact_path_def before_sizes_def)
qed

text \<open>
  Claim C3 as stated fails: a source of 100 bytes encoded to 150 bytes is
  converted, and the value returned is \<open>-50\<close>.
\<close>

theorem grown_file_returns_negative_saving:
  "list_ex reports_conversion (fst (convert_to_mp3 env_grow ''music/a.wav'' [])) \<and>
   snd (convert_to_mp3 env_grow ''music/a.wav'' []) = Inr (- 50)"
  by code_simp

subsection \<open>MP3 files: bitrate, tag estimation, eligibility\<close>

lemma get_mp3_bitrate_eq:
  "get_mp3_bitrate env p h =
     (case raises env h (Mutagen_File p False) of
        Some x \<Rightarrow> ([Ev (Mutagen_File p False) (Some x), Ev (Print (Error_checking_bitrate p x)) None],
                   Inr None)
      | None \<Rightarrow>
          (case file_result env (h @ [Ev (Mutagen_File p False) None]) p False of
             None \<Rightarrow> ([Ev (Mutagen_File p False) None,
                        Ev (Print (Error_checking_bitrate p AttributeError)) None], Inr None)
           | Some a \<Rightarrow> ([Ev (Mutagen_File p False) None],
                         Inr (Some (int_div_1000 (info_bitrate a))))))"
  by (simp add: get_mp3_bitrate_def catch_io_def bind_io_def read_io_def call_io_def
      print_io_def return_io_def raise_io_def split: option.splits)

lemma all_estimate_mp3_tags:
  "(\<And>r. P (Ev (Mutagen_File p True) r)) \<Longrightarrow>
   (\<And>v r. P (Ev (Setitem p ''artist'' v) r)) \<Longrightarrow>
   (\<And>v r. P (Ev (Setitem p ''title'' v) r)) \<Longrightarrow>
   (\<And>ts r. P (Ev (Save p ts) r)) \<Longrightarrow>
   (\<And>m r. P (Ev (Requests_post m) r)) \<Longrightarrow>
   (\<And>m. \<not> reports_conversion (Ev (Print m) None) \<Longrightarrow> P (Ev (Print m) None)) \<Longrightarrow>
   list_all P (fst (estimate_mp3_tags env p h))"
  unfolding estimate_mp3_tags_def get_first_def
  by (auto intro!: all_intros all_send_slack_message split: option.splits list.splits)


lemma process_file_mp3:
  "lower (snd (splitext p)) = ''.mp3'' \<Longrightarrow>
   process_file env p =
     bind_io (get_mp3_bitrate env p) (\<lambda>bitrate.
     bind_io (estimate_mp3_tags env p) (\<lambda>_.
     if no_conversion_needed bitrate (desired_bitrate env) then return_io 0
     else convert_to_mp3 env p))"
  by (simp add: process_file_def SUPPORTED_EXTENSIONS_def Let_def)

lemma get_mp3_bitrate_Some:
  "snd (get_mp3_bitrate env p h) = Inr (Some b) \<Longrightarrow>
   get_mp3_bitrate env p h = ([Ev (Mutagen_File p False) None], Inr (Some b))"
  by (auto simp: get_mp3_bitrate_eq split: option.splits)

lemma skip_trace:
  assumes ext: "lower (snd (splitext p)) = ''.mp3''"
    and b: "snd (get_mp3_bitrate env p h) = Inr (Some (desired_bitrate env))"
  shows "fst (process_file env p h) =
           Ev (Mutagen_File p False) None #
           fst (estimate_mp3_tags env p (h @ [Ev (Mutagen_File p False) None]))"
    and "snd (process_file env p h) =
           (case snd (estimate_mp3_tags env p (h @ [Ev (Mutagen_File p False) None])) of
              Inl x \<Rightarrow> Inl x | Inr u \<Rightarrow> Inr 0)"
  using get_mp3_bitrate_Some[OF b]
  by (simp_all add: process_file_mp3[OF ext] fst_bind_io snd_bind_io no_conversion_needed_def
      return_io_def split: sum.splits)

lemma estimate_nothing_to_do:
  assumes "\<forall>af. file_result env (h @ [Ev (Mutagen_File p True) None]) p True = Some af \<longrightarrow>
             has_tag (mtags af) ''artist'' \<and> has_tag (mtags af) ''title'' \<or>
             partition_sep (fst (splitext (basename p))) = None"
  shows "list_all harmless (fst (estimate_mp3_tags env p h))"
proof (cases "partition_sep (fst (splitext (basename p)))")
  case None
  then show ?thesis
    unfolding estimate_mp3_tags_def get_first_def
    by (auto intro!: all_intros all_send_slack_message simp: harmless_def
        split: option.splits list.splits)
next
  case (Some ab)
  show ?thesis
  proof (cases "raises env h (Mutagen_File p True)")
    case (Some x)
    then show ?thesis
      by (simp add: estimate_mp3_tags_def fst_bind_io snd_bind_io read_io_def call_io_def
          harmless_def)
  next
    case None
    show ?thesis
    proof (cases "file_result env (h @ [Ev (Mutagen_File p True) None]) p True")
      case None
      then show ?thesis
        using \<open>raises env h (Mutagen_File p True) = None\<close>
        by (simp add: estimate_mp3_tags_def fst_bind_io snd_bind_io read_io_def call_io_def
            harmless_def raise_io_def)
    next
      case (Some af)
      then have "has_tag (mtags af) ''artist'' \<and> has_tag (mtags af) ''title''"
        using assms \<open>partition_sep (fst (splitext (basename p))) = Some ab\<close> by auto
      then show ?thesis
        using Some \<open>raises env h (Mutagen_File p True) = None\<close>
        by (auto simp: estimate_mp3_tags_def fst_bind_io snd_bind_io read_io_def call_io_def
            harmless_def raise_io_def return_io_def get_first_def has_tag_def
            split: option.splits list.splits)
    qed
  qed
qed


lemma visit_legacy_compliant:
  assumes "lower (snd (splitext file)) = ''.mp3''"
    and "snd (get_mp3_bitrate env (join root file) h) = Inr (Some (desired_bitrate env))"
  shows "visit_legacy env root file acc h =
           ([Ev (Mutagen_File (join root file) False) None], Inr acc)"
  using assms(1) get_mp3_bitrate_Some[OF assms(2)]
  by (simp add: visit_legacy_def SUPPORTED_EXTENSIONS_def Let_def bind_io_def return_io_def)

lemma estimates_only:
  "list_all (estimates_tags_of p) (fst (estimate_mp3_tags env p h))"
  by (rule all_estimate_mp3_tags) simp_all

text \<open>
  Claim C4, as amended. For an \<^verbatim>\<open>.mp3\<close> file whose bitrate is read as exactly
  the target, \<open>process_file\<close> never decodes, encodes, moves, re-owns or
  removes anything and returns 0 unless the tag estimation raises: its only
  events are tag reads of the file, the estimation of its artist and title with
  one save of its tags, and reports. When the tags read have a non-empty
  artist and a non-empty title, or the file name has no \<^verbatim>\<open>" - "\<close>, the run
  mutates nothing at all. In the sequential script the skip consists of the
  one tag read.
\<close>

theorem compliant_mp3_not_reencoded:
  "(lower (snd (splitext p)) = ''.mp3'' \<and>
    snd (get_mp3_bitrate env p h) = Inr (Some (desired_bitrate env)) \<longrightarrow>
      list_all (estimates_tags_of p) (fst (process_file env p h)) \<and>
      (\<forall>s. snd (process_file env p h) = Inr s \<longrightarrow> s = 0) \<and>
      ((\<forall>af. file_result env
                (h @ [Ev (Mutagen_File p False) None, Ev (Mutagen_File p True) None]) p True
              = Some af \<longrightarrow>
              has_tag (mtags af) ''artist'' \<and> has_tag (mtags af) ''title'' \<or>
              partition_sep (fst (splitext (basename p))) = None) \<longrightarrow>
         list_all harmless (fst (process_file env p h)))) \<and>
   (lower (snd (splitext file)) = ''.mp3'' \<and>
    snd (get_mp3_bitrate env (join root file) h) = Inr (Some (desired_bitrate env)) \<longrightarrow>
      visit_legacy env root file acc h =
        ([Ev (Mutagen_File (join root file) False) None], Inr acc))"
proof -
  have "list_all harmless (fst (process_file env p h))"
    if "lower (snd (splitext p)) = ''.mp3''"
      and "snd (get_mp3_bitrate env p h) = Inr (Some (desired_bitrate env))"
      and "\<forall>af. file_result env
                (h @ [Ev (Mutagen_File p False) None, Ev (Mutagen_File p True) None]) p True
              = Some af \<longrightarrow>
              has_tag (mtags af) ''artist'' \<and> has_tag (mtags af) ''title'' \<or>
              partition_sep (fst (splitext (basename p))) = None"
    using estimate_nothing_to_do[of env "h @ [Ev (Mutagen_File p False) None]" p] that
    by (simp add: skip_trace harmless_def)
  then show ?thesis
    using estimates_only[of p env]
    by (auto simp: skip_trace visit_legacy_compliant split: sum.splits)
qed

theorem compliant_mp3_not_reencoded_witness:
  "lower (snd (splitext ''music/a.mp3'')) = ''.mp3'' \<and>
   snd (get_mp3_bitrate env_tagged ''music/a.mp3'' []) = Inr (Some (desired_bitrate env_tagged)) \<and>
   snd (process_file env_tagged ''music/a.mp3'' []) = Inr 0 \<and>
   list_all harmless (fst (process_file env_tagged ''music/a.mp3'' [])) \<and>
   lower (snd (splitext ''a.mp3'')) = ''.mp3'' \<and>
   snd (get_mp3_bitrate env_tagged (join ''music'' ''a.mp3'') []) =
     Inr (Some (desired_bitrate env_tagged)) \<and>
   visit_legacy env_tagged ''music'' ''a.mp3'' (0, 0) [] =
     ([Ev (Mutagen_File (join ''music'' ''a.mp3'') False) None], Inr (0, 0))"
proof -
  have a: "lower (snd (splitext ''music/a.mp3'')) = ''.mp3''" by code_simp
  have b: "snd (get_mp3_bitrate env_tagged ''music/a.mp3'' []) =
             Inr (Some (desired_bitrate env_tagged))" by code_simp
  have c: "\<forall>af. file_result env_tagged
                ([] @ [Ev (Mutagen_File ''music/a.mp3'' False) None,
                       Ev (Mutagen_File ''music/a.mp3'' True) None]) ''music/a.mp3'' True
              = Some af \<longrightarrow>
              has_tag (mtags af) ''artist'' \<and> has_tag (mtags af) ''title'' \<or>
              partition_sep (fst (splitext (basename ''music/a.mp3''))) = None"
    by (auto simp: env_tagged_def has_tag_def)
  have d: "lower (snd (splitext ''a.mp3'')) = ''.mp3''" by code_simp
  have e: "snd (get_mp3_bitrate env_tagged (join ''music'' ''a.mp3'') []) =
             Inr (Some (desired_bitrate env_tagged))" by code_simp
  have f: "snd (process_file env_tagged ''music/a.mp3'' []) = Inr 0" by code_simp
  show ?thesis
    using a b c d e f
      compliant_mp3_not_reencoded
        [of "''music/a.mp3''" env_tagged "[]" "''a.mp3''" "''music''" "(0, 0)"]
    by simp
qed

text \<open>
  Claim C4 as stated fails in camps\_mt.py: an \<^verbatim>\<open>.mp3\<close> file at the target
  bitrate, without tags and named \<^verbatim>\<open>Artist - Title.mp3\<close>, has its tags
  written before it is skipped.
\<close>

theorem compliant_mp3_tags_rewritten:
  "lower (snd (splitext ''music/Artist - Title.mp3'')) = ''.mp3'' \<and>
   snd (get_mp3_bitrate env_untagged ''music/Artist - Title.mp3'' []) =
     Inr (Some (desired_bitrate env_untagged)) \<and>
   process_file env_untagged ''music/Artist - Title.mp3'' [] =
     ([Ev (Mutagen_File ''music/Artist - Title.mp3'' False) None,
       Ev (Mutagen_File ''music/Artist - Title.mp3'' True) None,
       Ev (Setitem ''music/Artist - Title.mp3'' ''artist'' ''Artist'') None,
       Ev (Setitem ''music/Artist - Title.mp3'' ''title'' ''Title'') None,
       Ev (Save ''music/Artist - Title.mp3''
             [(''artist'', [''Artist'']), (''title'', [''Title''])]) None,
       Ev (Print (Estimated_metadata ''music/Artist - Title.mp3'' ''Artist'' ''Title'')) None,
       Ev (Requests_post
             (Estimated_metadata ''music/Artist - Title.mp3'' ''Artist'' ''Title'')) None,
       Ev (Print Slack_sent) None],
      Inr 0)"
  by code_simp

text \<open>
  Claim C5, as amended. The bitrate read is \<^verbatim>\<open>None\<close> exactly when
  \<^verbatim>\<open>mutagen.File\<close> raises or returns \<^verbatim>\<open>None\<close>. For an \<^verbatim>\<open>.mp3\<close> file whose
  tag estimation returns, \<open>process_file\<close> skips the file (returns 0 with no
  further call) when the bitrate equals the target, or is non-zero and
  strictly below the target; in every other case, that is a failed read, a
  bitrate of zero (unless the target is zero) or a bitrate above the target, it
  continues with \<open>convert_to_mp3\<close>.
\<close>

theorem mp3_eligibility:
  "snd (get_mp3_bitrate env p h) =
     Inr (case raises env h (Mutagen_File p False) of
            Some x \<Rightarrow> None
          | None \<Rightarrow>
              (case file_result env (h @ [Ev (Mutagen_File p False) None]) p False of
                 None \<Rightarrow> None
               | Some a \<Rightarrow> Some (int_div_1000 (info_bitrate a)))) \<and>
   (lower (snd (splitext p)) = ''.mp3'' \<and>
    get_mp3_bitrate env p h = (es1, Inr bitrate) \<and>
    estimate_mp3_tags env p (h @ es1) = (es2, Inr ()) \<longrightarrow>
      process_file env p h =
        (case bitrate of
           None \<Rightarrow>
             (es1 @ es2 @ fst (convert_to_mp3 env p (h @ es1 @ es2)),
              snd (convert_to_mp3 env p (h @ es1 @ es2)))
         | Some b \<Rightarrow>
             if b = desired_bitrate env \<or> (b \<noteq> 0 \<and> b < desired_bitrate env)
             then (es1 @ es2, Inr 0)
             else (es1 @ es2 @ fst (convert_to_mp3 env p (h @ es1 @ es2)),
                   snd (convert_to_mp3 env p (h @ es1 @ es2)))))"
  by (auto simp: get_mp3_bitrate_eq process_file_mp3 bind_io_def no_conversion_needed_def
      return_io_def split: option.splits prod.splits sum.splits)

theorem mp3_eligibility_witness:
  "lower (snd (splitext ''music/a.mp3'')) = ''.mp3'' \<and>
   get_mp3_bitrate env_low_bitrate ''music/a.mp3'' [] =
     ([Ev (Mutagen_File ''music/a.mp3'' False) None], Inr (Some 128)) \<and>
   estimate_mp3_tags env_low_bitrate ''music/a.mp3''
     ([] @ [Ev (Mutagen_File ''music/a.mp3'' False) None]) =
     ([Ev (Mutagen_File ''music/a.mp3'' True) None], Inr ()) \<and>
   process_file env_low_bitrate ''music/a.mp3'' [] =
     ([Ev (Mutagen_File ''music/a.mp3'' False) None] @
      [Ev (Mutagen_File ''music/a.mp3'' True) None], Inr 0)"
proof -
  have a: "lower (snd (splitext ''music/a.mp3'')) = ''.mp3''" by code_simp
  have b: "get_mp3_bitrate env_low_bitrate ''music/a.mp3'' [] =
     ([Ev (Mutagen_File ''music/a.mp3'' False) None], Inr (Some 128))" by code_simp
  have c: "estimate_mp3_tags env_low_bitrate ''music/a.mp3''
     ([] @ [Ev (Mutagen_File ''music/a.mp3'' False) None]) =
     ([Ev (Mutagen_File ''music/a.mp3'' True) None], Inr ())" by code_simp
  have d: "desired_bitrate env_low_bitrate = 256" by (simp add: env_low_bitrate_def quiet_env_def)
  show ?thesis
    using a b c d
      mp3_eligibility
        [of env_low_bitrate "''music/a.mp3''" "[]"
            "[Ev (Mutagen_File ''music/a.mp3'' False) None]" "Some 128"
            "[Ev (Mutagen_File ''music/a.mp3'' True) None]"]
    by simp
qed

text \<open>
  Claim C5 as stated fails: a bitrate of 0 is strictly below the target of 256
  and the file is converted.
\<close>

theorem zero_bitrate_is_converted:
  "lower (snd (splitext ''music/a.mp3'')) = ''.mp3'' \<and>
   snd (get_mp3_bitrate env_zero_bitrate ''music/a.mp3'' []) = Inr (Some 0) \<and>
   (0::int) < desired_bitrate env_zero_bitrate \<and>
   list_ex reports_conversion (fst (process_file env_zero_bitrate ''music/a.mp3'' []))"
  by code_simp

subsection \<open>Failures inside a task\<close>

text \<open>
  \<^verbatim>\<open>convert_to_mp3\<close> catches whatever is raised inside it, and a file that is
  not an \<^verbatim>\<open>.mp3\<close> makes \<open>process_file\<close> return.
\<close>

lemma convert_to_mp3_returns: "\<exists>s. snd (convert_to_mp3 env p h) = Inr s"
  unfolding convert_to_mp3_staged by (rule staged_returns)

lemma process_file_returns_unless_mp3:
  "lower (snd (splitext p)) \<noteq> ''.mp3'' \<Longrightarrow> \<exists>s. snd (process_file env p h) = Inr s"
  using convert_to_mp3_returns[of env p h]
  by (simp add: process_file_def Let_def return_io_def)

lemma convert_to_mp3_legacy_returns: "\<exists>s. snd (convert_to_mp3_legacy env p h) = Inr s"
  unfolding convert_to_mp3_legacy_staged by (rule staged_returns)

lemma report_legacy_result: "snd (report_legacy env acc h) = Inr ()"
  by (cases acc)
     (simp add: report_legacy_def snd_bind_io print_io_def return_io_def
        send_slack_notification_legacy_def snd_post_legacy)

text \<open>
  Claim C9. Whatever the HTTP client does (it raises, or it answers with any
  status code), the functions that post to the webhook return normally, in
  both scripts: the failure is printed and not propagated. So the task that
  reports its failure through them still returns (\<^verbatim>\<open>convert_to_mp3\<close>), and so
  does the end of the batch that posts the summary.
\<close>

theorem notification_failure_not_propagated:
  "snd (send_slack_message env message h) = Inr () \<and>
   snd (send_slack_notification env converted_count total_space_saved h) = Inr () \<and>
   snd (post_legacy env message h) = Inr () \<and>
   snd (send_slack_notification_legacy env converted_count total_space_saved h) = Inr () \<and>
   (\<exists>s. snd (convert_to_mp3 env p h) = Inr s) \<and>
   (\<exists>s. snd (convert_to_mp3_legacy env p h) = Inr s) \<and>
   snd (report env results h) = Inr () \<and>
   snd (report_legacy env acc h) = Inr ()"
  using convert_to_mp3_returns convert_to_mp3_legacy_returns
  by (simp add: snd_send_slack_message snd_post_legacy send_slack_notification_def
      send_slack_notification_legacy_def report_result report_legacy_result)

text \<open>
  Claim C1 does not hold of camps\_mt.py. Lines 123--125 of \<open>process_file\<close>
  read the tags of an \<^verbatim>\<open>.mp3\<close> file outside any \<^verbatim>\<open>try\<close>. When
  \<^verbatim>\<open>mutagen.File\<close> raises on \<^verbatim>\<open>music/song.mp3\<close>, \<^verbatim>\<open>get_mp3_bitrate\<close> catches
  the exception of its own read, the second read raises again and
  \<open>process_file\<close> raises; when \<^verbatim>\<open>mutagen.File\<close> returns \<^verbatim>\<open>None\<close>,
  \<^verbatim>\<open>audio_file.get\<close> raises \<^verbatim>\<open>AttributeError\<close>. In both cases
  \<open>process_directory\<close> raises when it collects the results and prints no
  summary, although the other file of the walk was converted. The sequential
  script completes on the same input.
\<close>

theorem unreadable_mp3_aborts_batch:
  "process_file env_unreadable_mp3 ''music/song.mp3'' [] =
     ([Ev (Mutagen_File ''music/song.mp3'' False) (Some (Raised ''MutagenError'')),
       Ev (Print (Error_checking_bitrate ''music/song.mp3'' (Raised ''MutagenError''))) None,
       Ev (Mutagen_File ''music/song.mp3'' True) (Some (Raised ''MutagenError''))],
      Inl (Raised ''MutagenError'')) \<and>
   snd (process_directory env_unreadable_mp3 ''music'' []) = Inl (Raised ''MutagenError'') \<and>
   \<not> list_ex prints_summary (fst (process_directory env_unreadable_mp3 ''music'' [])) \<and>
   snd (process_file env_unrecognised_mp3 ''music/song.mp3'' []) = Inl AttributeError \<and>
   snd (process_directory env_unrecognised_mp3 ''music'' []) = Inl AttributeError \<and>
   \<not> list_ex prints_summary (fst (process_directory env_unrecognised_mp3 ''music'' [])) \<and>
   snd (process_directory_legacy env_unreadable_mp3 ''music'' []) = Inr ()"
  by code_simp

text \<open>
  Claim C7 does not hold of camps\_mt.py. The source \<^verbatim>\<open>Artist - Title.flac\<close> is
  decoded and encoded, then \<^verbatim>\<open>mutagen.File\<close> raises on it (line 66). The handler
  finds \<^verbatim>\<open>" - "\<close> in the name and assigns to \<^verbatim>\<open>new_metadata\<close> (line 81), which
  line 67 never bound: \<^verbatim>\<open>UnboundLocalError\<close> leaves the handler, the outer
  handler reports a failed conversion and returns 0; nothing is moved. With a
  name that has no \<^verbatim>\<open>" - "\<close> the same failure is reported and the file is
  converted.
\<close>

theorem unreadable_source_tags_fail_task:
  "convert_to_mp3 env_unreadable_source ''music/Artist - Title.flac'' [] =
     ([Ev (From_file ''music/Artist - Title.flac'') None,
       Ev (Os_stat ''music/Artist - Title.flac'') None,
       Ev Named_temporary_file None,
       Ev (Export ''/tmp/t.mp3'' 256) None,
       Ev (Os_stat ''music/Artist - Title.flac'') None,
       Ev (Getsize ''music/Artist - Title.flac'') None,
       Ev (Getsize ''/tmp/t.mp3'') None,
       Ev (Mutagen_File ''music/Artist - Title.flac'' False) (Some (Raised ''MutagenError'')),
       Ev (Print (Warning_skipping_metadata ''music/Artist - Title.flac''
                    (Raised ''MutagenError''))) None,
       Ev (Print (Error_converting ''music/Artist - Title.flac'' UnboundLocalError)) None,
       Ev (Requests_post (Error_converting ''music/Artist - Title.flac'' UnboundLocalError)) None,
       Ev (Print Slack_sent) None],
      Inr 0) \<and>
   list_ex reports_conversion (fst (convert_to_mp3 env_unreadable_source ''music/track.flac'' []))"
  by code_simp

text \<open>
  The recovery of \<open>process_file\<close> (lines 127--137) is guarded: the tags it
  saves keep a non-empty artist and a non-empty title as they were read.
\<close>

lemma estimate_mp3_tags_guarded:
  assumes "file_result env (h @ [Ev (Mutagen_File p True) None]) p True = Some af"
    and "Ev (Save q ts) r \<in> set (fst (estimate_mp3_tags env p h))"
  shows "(has_tag (mtags af) ''artist'' \<longrightarrow>
            map_of ts ''artist'' = map_of (mtags af) ''artist'') \<and>
         (has_tag (mtags af) ''title'' \<longrightarrow>
            map_of ts ''title'' = map_of (mtags af) ''title'')"
proof -
  have n: "Ev (Save q ts) r \<notin> set (fst (send_slack_message env m h'))" for m h'
    using all_send_slack_message[of "\<lambda>e. \<not> saves e" m env h']
    by (auto simp: list_all_iff)
  show ?thesis
    using assms n
    by (auto simp: estimate_mp3_tags_def fst_bind_io snd_bind_io read_io_def call_io_def
        raise_io_def return_io_def print_io_def get_first_def has_tag_def update_conv'
        split: option.splits list.splits sum.splits if_splits)
qed

text \<open>
  Whenever item assignment on the artifact's tag object raises, the recovery of
  \<^verbatim>\<open>convert_to_mp3\<close> (lines 76--94) on a name with \<^verbatim>\<open>" - "\<close> raises as well
  and saves nothing.
\<close>

lemma recover_tags_raises:
  assumes "partition_sep (fst (splitext (basename p))) = Some (a, b)"
    and "\<And>h' v. raises env h' (Setitem t ''artist'' v) \<noteq> None"
  shows "(\<exists>x. snd (recover_tags env p t nm e h) = Inl x) \<and>
         \<not> list_ex saves (fst (recover_tags env p t nm e h))"
  using assms(1) assms(2)[of "h @ [Ev (Print (Warning_skipping_metadata p e)) None]" a]
  by (auto simp: recover_tags_def fst_bind_io snd_bind_io print_io_def raise_io_def
      call_io_def split: var.splits option.splits sum.splits)

text \<open>
  Claim C6 does not hold of the recovery of \<^verbatim>\<open>convert_to_mp3\<close>. The tags of
  \<^verbatim>\<open>Artist - Title.flac\<close> are read and hold neither artist nor title; merging
  them into the artifact raises (line 69), so the recovery runs on a name with
  \<^verbatim>\<open>" - "\<close>. Line 81 assigns the string \<^verbatim>\<open>Artist\<close> to an item of the artifact's
  tag object, which raises: neither artist nor title is written, no tags are
  saved, and the outer handler reports a failed conversion and returns 0. The
  recovery of \<open>process_file\<close>, on the object read with \<^verbatim>\<open>easy=True\<close>, does
  write both fields in the same world.
\<close>

theorem recovery_in_conversion_writes_nothing:
  "convert_to_mp3 env_id3_artifact ''music/Artist - Title.flac'' [] =
     ([Ev (From_file ''music/Artist - Title.flac'') None,
       Ev (Os_stat ''music/Artist - Title.flac'') None,
       Ev Named_temporary_file None,
       Ev (Export ''/tmp/t.mp3'' 256) None,
       Ev (Os_stat ''music/Artist - Title.flac'') None,
       Ev (Getsize ''music/Artist - Title.flac'') None,
       Ev (Getsize ''/tmp/t.mp3'') None,
       Ev (Mutagen_File ''music/Artist - Title.flac'' False) None,
       Ev (Mutagen_File ''/tmp/t.mp3'' False) None,
       Ev (Update ''/tmp/t.mp3'' [(''comment'', [''ripped''])]) (Some TypeError),
       Ev (Print (Warning_skipping_metadata ''music/Artist - Title.flac'' TypeError)) None,
       Ev (Setitem ''/tmp/t.mp3'' ''artist'' ''Artist'') (Some TypeError),
       Ev (Print (Error_converting ''music/Artist - Title.flac'' TypeError)) None,
       Ev (Requests_post (Error_converting ''music/Artist - Title.flac'' TypeError)) None,
       Ev (Print Slack_sent) None],
      Inr 0) \<and>
   \<not> list_ex saves (fst (convert_to_mp3 env_id3_artifact ''music/Artist - Title.flac'' [])) \<and>
   Ev (Save ''music/Artist - Title.mp3''
         [(''comment'', [''ripped'']), (''artist'', [''Artist'']), (''title'', [''Title''])]) None
     \<in> set (fst (process_file env_id3_artifact ''music/Artist - Title.mp3'' []))"
  by code_simp

subsection \<open>The summary and the tasks of the walk\<close>

text \<open>\<open>run_tasks\<close> runs the task of every file and keeps every outcome.\<close>

lemma attempt_io_eq: "attempt_io m h = (fst (m h), Inr (snd (m h)))"
  by (simp add: attempt_io_def catch_io_def bind_io_def return_io_def
      split: prod.splits sum.splits)

lemma task_history_Cons:
  "task_history env (f # fs) h (Suc i) = task_history env fs (h @ fst (process_file env f h)) i"
  by (induction i) simp_all

lemma task_outcomes_Nil: "task_outcomes env [] h = []"
  by (simp add: task_outcomes_def)

lemma task_outcomes_Cons:
  "task_outcomes env (f # fs) h =
     snd (process_file env f h) # task_outcomes env fs (h @ fst (process_file env f h))"
proof -
  have "[0..<length (f # fs)] = 0 # map Suc [0..<length fs]"
    by (simp add: upt_conv_Cons map_Suc_upt del: upt_Suc)
  then show ?thesis
    unfolding task_outcomes_def
    by (simp add: task_history_Cons comp_def del: upt_Suc task_history.simps(2))
qed

lemma run_tasks_outcomes:
  "snd (run_tasks env fs h) = Inr (task_outcomes env fs h) \<and>
   h @ fst (run_tasks env fs h) = task_history env fs h (length fs)"
proof (induction fs arbitrary: h)
  case Nil
  then show ?case by (simp add: return_io_def task_outcomes_Nil)
next
  case (Cons f fs)
  show ?case
    using Cons[of "h @ fst (process_file env f h)"]
    by (simp add: fst_bind_io snd_bind_io attempt_io_eq return_io_def task_outcomes_Cons
        task_history_Cons del: task_history.simps(2))
qed


text \<open>The loop of the sequential script adds up the value of every conversion.\<close>

lemma bind_io_assoc:
  "bind_io (bind_io m f) g = bind_io m (\<lambda>a. bind_io (f a) g)"
  by (rule ext) (simp add: bind_io_def split: prod.splits sum.splits)

lemma bind_io_return: "bind_io (return_io a) f = f a"
  by (rule ext) (simp add: bind_io_def return_io_def split: prod.splits)

lemma bind_io_if:
  "bind_io (if c then m else m') f = (if c then bind_io m f else bind_io m' f)"
  by simp

lemma returns_bind:
  "(\<And>h. \<exists>a. snd (m h) = Inr a) \<Longrightarrow> (\<And>a h. \<exists>b. snd (f a h) = Inr b) \<Longrightarrow>
   \<exists>b. snd (bind_io m f h) = Inr b"
  by (simp add: snd_bind_io split: sum.splits) (metis sum.distinct(1))

lemma returns_return: "\<exists>b. snd (return_io a h) = Inr b"
  by (simp add: return_io_def)

lemma returns_print: "\<exists>b. snd (print_io m h) = Inr b"
  by (simp add: print_io_def)

lemma get_mp3_bitrate_returns: "\<exists>b. snd (get_mp3_bitrate env p h) = Inr b"
  by (simp add: get_mp3_bitrate_eq split: option.splits)

lemma legacy_task_returns: "\<exists>r. snd (legacy_task env root file h) = Inr r"
  unfolding legacy_task_def Let_def
  by (auto intro!: returns_bind returns_return returns_print get_mp3_bitrate_returns
      convert_to_mp3_legacy_returns split: option.splits)

lemma visit_legacy_task:
  "visit_legacy env root file acc =
     bind_io (legacy_task env root file)
       (\<lambda>r. return_io (case r of None \<Rightarrow> acc | Some s \<Rightarrow> tally s acc))"
  unfolding visit_legacy_def legacy_task_def Let_def
  by (simp add: bind_io_assoc bind_io_return if_distrib[of "\<lambda>m. bind_io m _"] cong: if_cong)


lemma legacy_history_Cons:
  "legacy_history env ((r, f) # ps) h (Suc i) =
     legacy_history env ps (h @ fst (legacy_task env r f h)) i"
  by (induction i) simp_all

lemma legacy_values_Cons:
  "legacy_values env ((r, f) # ps) h =
     (case snd (legacy_task env r f h) of Inr (Some s) \<Rightarrow> [s] | _ \<Rightarrow> []) @
     legacy_values env ps (h @ fst (legacy_task env r f h))"
proof -
  have "[0..<length ((r, f) # ps)] = 0 # map Suc [0..<length ps]"
    by (simp add: upt_conv_Cons map_Suc_upt del: upt_Suc)
  then show ?thesis
    unfolding legacy_values_def
    by (simp add: legacy_history_Cons comp_def del: upt_Suc legacy_history.simps(2))
qed

lemma loop_legacy_values:
  "snd (loop_legacy env ps acc h) = Inr (fold tally (legacy_values env ps h) acc) \<and>
   h @ fst (loop_legacy env ps acc h) = legacy_history env ps h (length ps)"
proof (induction ps arbitrary: acc h)
  case Nil
  then show ?case by (simp add: return_io_def legacy_values_def)
next
  case (Cons a ps)
  obtain r f where a: "a = (r, f)" by (cases a)
  obtain v where v: "snd (legacy_task env r f h) = Inr v"
    using legacy_task_returns by blast
  show ?case
    using Cons[of _ "h @ fst (legacy_task env r f h)"] v
    by (cases v)
       (simp_all add: a visit_legacy_task fst_bind_io snd_bind_io return_io_def
          legacy_values_Cons legacy_history_Cons del: legacy_history.simps(2))
qed

lemma send_slack_message_posts: "list_ex (posts m) (fst (send_slack_message env m h))"
  by (simp add: send_slack_message_def fst_catch_io fst_bind_io read_io_def call_io_def
      split: sum.splits)

lemma post_legacy_posts: "list_ex (posts m) (fst (post_legacy env m h))"
  by (simp add: post_legacy_def fst_catch_io fst_bind_io read_io_def call_io_def
      split: sum.splits)

lemma report_events:
  "snd (report env results h) = Inr () \<and>
   fst (report env results h) \<noteq> [] \<and>
   last (fst (report env results h)) =
     Ev (Print (Conversion_completed (length (filter (\<lambda>s. 0 < s) results))
                  (sum_list (map (max 0) results)))) None \<and>
   (0 < length (filter (\<lambda>s. 0 < s) results) \<longrightarrow>
      list_ex (posts (Audio_conversion_completed (length (filter (\<lambda>s. 0 < s) results))
                        (sum_list (map (max 0) results))))
        (fst (report env results h)))"
  using send_slack_message_posts
  by (simp add: report_def summarise_def fold_tally fst_bind_io snd_bind_io print_io_def
      return_io_def send_slack_notification_def snd_send_slack_message)

lemma report_legacy_events:
  "snd (report_legacy env (c, t) h) = Inr () \<and>
   fst (report_legacy env (c, t) h) \<noteq> [] \<and>
   last (fst (report_legacy env (c, t) h)) =
     Ev (Print (Conversion_and_renaming_completed t)) None \<and>
   (c \<noteq> 0 \<longrightarrow> list_ex (posts (Files_converted_modified c t)) (fst (report_legacy env (c, t) h)))"
  using post_legacy_posts
  by (simp add: report_legacy_def fst_bind_io snd_bind_io print_io_def
      return_io_def send_slack_notification_legacy_def snd_post_legacy)

lemma process_directory_summary:
  assumes w: "raises env h (Os_walk d) = None"
    and o: "task_outcomes env (files_of_walk (walk_result env (h @ [Ev (Os_walk d) None]) d))
              (h @ [Ev (Os_walk d) None]) = map Inr results"
  shows "length results = length (files_of_walk (walk_result env (h @ [Ev (Os_walk d) None]) d))"
    and "snd (process_directory env d h) = Inr ()"
    and "last (fst (process_directory env d h)) =
           Ev (Print (Conversion_completed (length (filter (\<lambda>s. 0 < s) results))
                        (sum_list (map (max 0) results)))) None"
    and "0 < length (filter (\<lambda>s. 0 < s) results) \<longrightarrow>
           list_ex (posts (Audio_conversion_completed (length (filter (\<lambda>s. 0 < s) results))
                             (sum_list (map (max 0) results))))
             (fst (process_directory env d h))"
proof -
  let ?h1 = "h @ [Ev (Os_walk d) None]"
  let ?fs = "files_of_walk (walk_result env ?h1 d)"
  have r: "snd (run_tasks env ?fs ?h1) = Inr (map Inr results)"
    using run_tasks_outcomes[of env ?fs ?h1] o by simp
  show "length results = length ?fs"
    using arg_cong[OF o, of length] by (simp add: task_outcomes_def)
  show "snd (process_directory env d h) = Inr ()"
    using w r report_events[of env results]
    by (simp add: process_directory_def fst_bind_io snd_bind_io read_io_def call_io_def
        collect_values)
  show "last (fst (process_directory env d h)) =
           Ev (Print (Conversion_completed (length (filter (\<lambda>s. 0 < s) results))
                        (sum_list (map (max 0) results)))) None"
    using w r report_events[of env results]
    by (simp add: process_directory_def fst_bind_io snd_bind_io read_io_def call_io_def
        collect_values)
  show "0 < length (filter (\<lambda>s. 0 < s) results) \<longrightarrow>
           list_ex (posts (Audio_conversion_completed (length (filter (\<lambda>s. 0 < s) results))
                             (sum_list (map (max 0) results))))
             (fst (process_directory env d h))"
    using w r report_events[of env results]
    by (simp add: process_directory_def fst_bind_io snd_bind_io read_io_def call_io_def
        collect_values)
qed

lemma process_directory_legacy_summary:
  assumes w: "raises env h (Os_walk d) = None"
  shows "snd (process_directory_legacy env d h) = Inr ()"
    and "last (fst (process_directory_legacy env d h)) =
           Ev (Print (Conversion_and_renaming_completed
                 (sum_list (map (max 0)
                    (legacy_values env (pairs_of_walk (walk_result env (h @ [Ev (Os_walk d) None]) d))
                       (h @ [Ev (Os_walk d) None])))))) None"
    and "length (filter (\<lambda>s. 0 < s)
            (legacy_values env (pairs_of_walk (walk_result env (h @ [Ev (Os_walk d) None]) d))
               (h @ [Ev (Os_walk d) None]))) \<noteq> 0 \<longrightarrow>
         list_ex (posts (Files_converted_modified
                    (length (filter (\<lambda>s. 0 < s)
                       (legacy_values env (pairs_of_walk (walk_result env (h @ [Ev (Os_walk d) None]) d))
                          (h @ [Ev (Os_walk d) None]))))
                    (sum_list (map (max 0)
                       (legacy_values env (pairs_of_walk (walk_result env (h @ [Ev (Os_walk d) None]) d))
                          (h @ [Ev (Os_walk d) None]))))))
           (fst (process_directory_legacy env d h))"
proof -
  let ?h1 = "h @ [Ev (Os_walk d) None]"
  let ?ps = "pairs_of_walk (walk_result env ?h1 d)"
  let ?vs = "legacy_values env ?ps ?h1"
  have l: "snd (loop_legacy env ?ps (0, 0) ?h1) =
             Inr (length (filter (\<lambda>s. 0 < s) ?vs), sum_list (map (max 0) ?vs))"
    using loop_legacy_values[of env ?ps "(0, 0)" ?h1] by (simp add: fold_tally)
  note re = report_legacy_events[of env "length (filter (\<lambda>s. 0 < s) ?vs)"
      "sum_list (map (max 0) ?vs)"]
  show "snd (process_directory_legacy env d h) = Inr ()"
    using w l re
    by (simp add: process_directory_legacy_def fst_bind_io snd_bind_io read_io_def call_io_def)
  show "last (fst (process_directory_legacy env d h)) =
           Ev (Print (Conversion_and_renaming_completed (sum_list (map (max 0) ?vs)))) None"
    using w l re
    by (simp add: process_directory_legacy_def fst_bind_io snd_bind_io read_io_def call_io_def)
  show "length (filter (\<lambda>s. 0 < s) ?vs) \<noteq> 0 \<longrightarrow>
         list_ex (posts (Files_converted_modified (length (filter (\<lambda>s. 0 < s) ?vs))
                    (sum_list (map (max 0) ?vs))))
           (fst (process_directory_legacy env d h))"
    using w l re
    by (simp add: process_directory_legacy_def fst_bind_io snd_bind_io read_io_def call_io_def)
qed


text \<open>
  Claim C2, as amended. \<open>run_tasks\<close> returns the outcome of
  \<open>process_file\<close> for every file of the walk, one per file and in order.
  When the walk and all these tasks return, \<open>process_directory\<close> returns, its
  final line (and the summary it posts when the count is not zero) carries as
  count the number of tasks whose value is strictly positive and as total the
  sum of those values, which is the sum of \<open>max 0\<close> over the values of all
  tasks: no value is lost or counted twice. Every task counted has converted
  its file, but a task that converted its file without making it smaller
  returns a value that is not positive and is not counted. The loop of the
  sequential script computes the same two numbers from the values of all the
  conversions it runs, and \<open>process_directory_legacy\<close> prints and posts them.
\<close>

theorem summary_counts_positive_results:
  "snd (run_tasks env fs h) = Inr (task_outcomes env fs h) \<and>
   (raises env h (Os_walk d) = None \<and>
    task_outcomes env (files_of_walk (walk_result env (h @ [Ev (Os_walk d) None]) d))
      (h @ [Ev (Os_walk d) None]) = map Inr results \<longrightarrow>
      length results = length (files_of_walk (walk_result env (h @ [Ev (Os_walk d) None]) d)) \<and>
      snd (process_directory env d h) = Inr () \<and>
      last (fst (process_directory env d h)) =
        Ev (Print (Conversion_completed (length (filter (\<lambda>s. 0 < s) results))
                     (sum_list (map (max 0) results)))) None \<and>
      (0 < length (filter (\<lambda>s. 0 < s) results) \<longrightarrow>
         list_ex (posts (Audio_conversion_completed (length (filter (\<lambda>s. 0 < s) results))
                           (sum_list (map (max 0) results))))
           (fst (process_directory env d h)))) \<and>
   (snd (process_file env p h) = Inr s \<and> 0 < s \<longrightarrow>
      list_ex reports_conversion (fst (process_file env p h))) \<and>
   snd (loop_legacy env ps acc h) = Inr (fold tally (legacy_values env ps h) acc) \<and>
   (raises env h (Os_walk d) = None \<longrightarrow>
      snd (process_directory_legacy env d h) = Inr () \<and>
      last (fst (process_directory_legacy env d h)) =
        Ev (Print (Conversion_and_renaming_completed
              (sum_list (map (max 0)
                 (legacy_values env
                    (pairs_of_walk (walk_result env (h @ [Ev (Os_walk d) None]) d))
                    (h @ [Ev (Os_walk d) None])))))) None \<and>
      (length (filter (\<lambda>s. 0 < s)
          (legacy_values env (pairs_of_walk (walk_result env (h @ [Ev (Os_walk d) None]) d))
             (h @ [Ev (Os_walk d) None]))) \<noteq> 0 \<longrightarrow>
       list_ex (posts (Files_converted_modified
                  (length (filter (\<lambda>s. 0 < s)
                     (legacy_values env
                        (pairs_of_walk (walk_result env (h @ [Ev (Os_walk d) None]) d))
                        (h @ [Ev (Os_walk d) None]))))
                  (sum_list (map (max 0)
                     (legacy_values env
                        (pairs_of_walk (walk_result env (h @ [Ev (Os_walk d) None]) d))
                        (h @ [Ev (Os_walk d) None]))))))
         (fst (process_directory_legacy env d h)))) \<and>
   fold tally results (c, t) =
     (c + length (filter (\<lambda>s. 0 < s) results), t + sum_list (map (max 0) results))"
proof -
  let ?h1 = "h @ [Ev (Os_walk d) None]"
  let ?vs = "legacy_values env (pairs_of_walk (walk_result env ?h1 d)) ?h1"
  have R: "snd (run_tasks env fs h) = Inr (task_outcomes env fs h)"
    using run_tasks_outcomes by blast
  have L: "snd (loop_legacy env ps acc h) = Inr (fold tally (legacy_values env ps h) acc)"
    using loop_legacy_values by blast
  have C: "fold tally results (c, t) =
     (c + length (filter (\<lambda>s. 0 < s) results), t + sum_list (map (max 0) results))"
    by (simp add: fold_tally)
  have P: "snd (process_file env p h) = Inr s \<and> 0 < s \<longrightarrow>
      list_ex reports_conversion (fst (process_file env p h))"
    using process_file_positive by blast
  have A: "raises env h (Os_walk d) = None \<and>
    task_outcomes env (files_of_walk (walk_result env ?h1 d)) ?h1 = map Inr results \<longrightarrow>
      length results = length (files_of_walk (walk_result env ?h1 d)) \<and>
      snd (process_directory env d h) = Inr () \<and>
      last (fst (process_directory env d h)) =
        Ev (Print (Conversion_completed (length (filter (\<lambda>s. 0 < s) results))
                     (sum_list (map (max 0) results)))) None \<and>
      (0 < length (filter (\<lambda>s. 0 < s) results) \<longrightarrow>
         list_ex (posts (Audio_conversion_completed (length (filter (\<lambda>s. 0 < s) results))
                           (sum_list (map (max 0) results))))
           (fst (process_directory env d h)))"
    using process_directory_summary[of env h d results] by blast
  have B: "raises env h (Os_walk d) = None \<longrightarrow>
      snd (process_directory_legacy env d h) = Inr () \<and>
      last (fst (process_directory_legacy env d h)) =
        Ev (Print (Conversion_and_renaming_completed (sum_list (map (max 0) ?vs)))) None \<and>
      (length (filter (\<lambda>s. 0 < s) ?vs) \<noteq> 0 \<longrightarrow>
       list_ex (posts (Files_converted_modified (length (filter (\<lambda>s. 0 < s) ?vs))
                  (sum_list (map (max 0) ?vs))))
         (fst (process_directory_legacy env d h)))"
    using process_directory_legacy_summary[of env h d] by blast
  show ?thesis
    using R L C P A B by (intro conjI) assumption+
qed

theorem summary_counts_positive_results_witness:
  "raises env_three_files [] (Os_walk ''music'') = None \<and>
   files_of_walk (walk_result env_three_files ([] @ [Ev (Os_walk ''music'') None]) ''music'') =
     [''music/a.wav'', ''music/notes.txt'', ''music/live/b.flac'', ''music/live/c.ogg''] \<and>
   task_outcomes env_three_files
     (files_of_walk (walk_result env_three_files ([] @ [Ev (Os_walk ''music'') None]) ''music''))
     ([] @ [Ev (Os_walk ''music'') None]) = map Inr [60, 0, 460, - 10] \<and>
   snd (process_directory env_three_files ''music'' []) = Inr () \<and>
   last (fst (process_directory env_three_files ''music'' [])) =
     Ev (Print (Conversion_completed 2 520)) None \<and>
   list_ex (posts (Audio_conversion_completed 2 520))
     (fst (process_directory env_three_files ''music'' [])) \<and>
   legacy_values env_three_files
     (pairs_of_walk (walk_result env_three_files ([] @ [Ev (Os_walk ''music'') None]) ''music''))
     ([] @ [Ev (Os_walk ''music'') None]) = [60, 460, - 10] \<and>
   snd (process_directory_legacy env_three_files ''music'' []) = Inr () \<and>
   last (fst (process_directory_legacy env_three_files ''music'' [])) =
     Ev (Print (Conversion_and_renaming_completed 520)) None \<and>
   list_ex (posts (Files_converted_modified 2 520))
     (fst (process_directory_legacy env_three_files ''music'' [])) \<and>
   snd (process_file env_three_files ''music/live/b.flac'' []) = Inr 460 \<and>
   list_ex reports_conversion (fst (process_file env_three_files ''music/live/b.flac'' []))"
proof -
  have a: "raises env_three_files [] (Os_walk ''music'') = None"
    by (simp add: env_three_files_def env_tagged_def quiet_env_def)
  have b: "files_of_walk
             (walk_result env_three_files ([] @ [Ev (Os_walk ''music'') None]) ''music'') =
           [''music/a.wav'', ''music/notes.txt'', ''music/live/b.flac'', ''music/live/c.ogg'']"
    by code_simp
  have c: "task_outcomes env_three_files
     (files_of_walk (walk_result env_three_files ([] @ [Ev (Os_walk ''music'') None]) ''music''))
     ([] @ [Ev (Os_walk ''music'') None]) = map Inr [60, 0, 460, - 10]"
    by code_simp
  have d: "legacy_values env_three_files
     (pairs_of_walk (walk_result env_three_files ([] @ [Ev (Os_walk ''music'') None]) ''music''))
     ([] @ [Ev (Os_walk ''music'') None]) = [60, 460, - 10]"
    by code_simp
  have e: "snd (process_file env_three_files ''music/live/b.flac'' []) = Inr 460"
    by code_simp
  show ?thesis
    using a b c d e
      summary_counts_positive_results
        [of env_three_files "[]" "[]" "''music''" "[60, 0, 460, - 10]"
            "''music/live/b.flac''" 460 "[]" "(0, 0)" 0 0]
    by (simp add: numeral_2_eq_2)
qed

text \<open>
  Claim C2 as stated fails: where the encoder's output has the size of the
  source, the only task converts its file and the summary counts no file.
\<close>

theorem unsaving_conversion_not_counted:
  "list_ex reports_conversion (fst (process_directory env_same_size ''music'' [])) \<and>
   last (fst (process_directory env_same_size ''music'' [])) =
     Ev (Print (Conversion_completed 0 0)) None"
  by code_simp

subsection \<open>The monitors reject what they should\<close>

lemma removal_before_move_rejected:
  "\<not> in_commit_order ''a.wav'' ''a.mp3'' In_scratch
       [Ev (Remove ''a.wav'') None, Ev (Move ''/tmp/t.mp3'' ''a.mp3'') None] \<and>
   \<not> in_commit_order ''a.mp3'' ''a.mp3'' In_scratch
       [Ev (Move ''/tmp/t.mp3'' ''a.mp3'') None, Ev (Remove ''a.mp3'') None] \<and>
   \<not> never_lost {''a.wav''}
       [Ev (Remove ''a.wav'') None, Ev (Move ''/tmp/t.mp3'' ''a.mp3'') None]"
  by (simp add: commit_step_def)

end
